theory Spec2Isabelle
  imports Complex_Main
begin

section \<open>Message schemas (diamond\_mind/shared/schemas.py)\<close>

text \<open>
  The enums of the schema module. \<open>TaskPriority\<close> and \<open>AlertSeverity\<close> both have a
  member called CRITICAL in the source; the severity's member is written
  \<open>ALERT_CRITICAL\<close> here, since constructors share one name space.
\<close>

datatype AgentType = ORCHESTRATOR | DATA_QUALITY | MODEL_MONITOR | FEATURE_ENGINEER | EXPLAINER

datatype TaskStatus = PENDING | RUNNING | COMPLETED | FAILED | CANCELLED

datatype TaskPriority = LOW | MEDIUM | HIGH | CRITICAL

datatype AlertSeverity = INFO | WARNING | ERROR | ALERT_CRITICAL

text \<open>The \<open>.value\<close> of an \<open>AgentType\<close> member (the enum is a \<open>str\<close> enum).\<close>

fun AgentType_value :: "AgentType \<Rightarrow> string" where
  "AgentType_value ORCHESTRATOR = ''orchestrator''"
| "AgentType_value DATA_QUALITY = ''data_quality''"
| "AgentType_value MODEL_MONITOR = ''model_monitor''"
| "AgentType_value FEATURE_ENGINEER = ''feature_engineer''"
| "AgentType_value EXPLAINER = ''explainer''"

text \<open>
  Values of type \<open>Any\<close> in the dictionaries a message carries. The runtime never looks
  inside them. A \<open>datetime\<close> is a number of seconds on the wall clock and a Python
  \<open>float\<close> is idealised as a real number.
\<close>

datatype pyval =
    PyNone
  | PyBool bool
  | PyInt int
  | PyFloat real
  | PyStr string
  | PyList "pyval list"
  | PyDict "(string \<times> pyval) list"

type_synonym pydict = "(string \<times> pyval) list"

type_synonym datetime = real

text \<open>
  The three message classes. Field names are the source's, except that the fields
  \<open>task_id\<close> and \<open>agent_id\<close> of \<open>AgentResult\<close> are \<open>r_task_id\<close> and \<open>r_agent_id\<close>, and
  the field \<open>agent_id\<close> of \<open>AgentAlert\<close> is \<open>a_agent_id\<close> (record fields share one name
  space too).
\<close>

record AgentTask =
  task_id :: string
  agent_id :: AgentType
  task_type :: string
  priority :: TaskPriority
  parameters :: pydict
  created_at :: datetime
  timeout_seconds :: "int option"
  retry_count :: int
  max_retries :: int

record AgentResult =
  r_task_id :: string
  r_agent_id :: AgentType
  status :: TaskStatus
  result_data :: "pydict option"
  metrics :: "(string \<times> real) list"
  artifacts :: "string list"
  duration_seconds :: real
  completed_at :: datetime
  error_message :: "string option"

record AgentAlert =
  alert_id :: string
  a_agent_id :: AgentType
  severity :: AlertSeverity
  message :: string
  details :: pydict
  timestamp :: datetime
  requires_action :: bool
  suggested_actions :: "string list"
  related_task_id :: "string option"

text \<open>
  Exceptions. \<open>Exception m\<close> is any instance \<open>e\<close> of a subclass of Python's
  \<open>Exception\<close>, with \<open>str(e) = m\<close>; it is what \<open>except Exception\<close> catches.
  \<open>CancelledError\<close> is \<open>asyncio.CancelledError\<close>, which derives from
  \<open>BaseException\<close> and passes through \<open>except Exception\<close>.
\<close>

datatype exn = Exception string | CancelledError

text \<open>
  The constructor call \<open>AgentResult(task_id=..., agent_id=..., status=..., error_message=...,
  duration_seconds=...)\<close> as \<open>_execute_task\<close> makes it: the other fields take their
  defaults (\<open>completed_at\<close> the clock reading \<open>stamp\<close>), and the field constraint
  \<open>duration_seconds: float = Field(..., ge=0)\<close> is validated, so a negative duration
  raises a \<open>ValidationError\<close>. Assigning to the field of an existing object is not
  validated (the model does not set \<open>validate_assignment\<close>).
\<close>

definition AgentResult_init ::
  "string \<Rightarrow> AgentType \<Rightarrow> TaskStatus \<Rightarrow> string option \<Rightarrow> real \<Rightarrow> datetime \<Rightarrow> exn + AgentResult" where
  "AgentResult_init tid aid st err dur stamp =
     (if dur < 0 then
        Inl (Exception ''1 validation error for AgentResult: duration_seconds: Input should be greater than or equal to 0'')
      else
        Inr \<lparr> r_task_id = tid, r_agent_id = aid, status = st, result_data = None,
              metrics = [], artifacts = [], duration_seconds = dur, completed_at = stamp,
              error_message = err \<rparr>)"

section \<open>The environment: library functions, settings, Redis, clock\<close>

text \<open>
  Library functions the source calls and this repository does not define: pydantic's
  \<open>model_dump_json\<close>, \<open>json.loads\<close> followed by a model constructor, \<open>isoformat\<close>, and
  string formatting of an enum member and of a float with \<open>:.2f\<close>. They are parameters
  of the model. A function that can raise returns \<open>Inl m\<close> for an \<open>Exception\<close> whose text
  is \<open>m\<close>.
\<close>

record pylib =
  load_task :: "string \<Rightarrow> string + AgentTask"
  dump_result :: "AgentResult \<Rightarrow> string + string"
  load_result :: "string \<Rightarrow> string + AgentResult"
  dump_alert :: "AgentAlert \<Rightarrow> string + string"
  isoformat :: "datetime \<Rightarrow> string"
  format_AgentType :: "AgentType \<Rightarrow> string"
  format_2f :: "real \<Rightarrow> string"

text \<open>The settings the runtime and the message queue read (shared/config.py).\<close>

record Settings =
  task_queue_name :: string
  result_queue_name :: string
  alert_queue_name :: string
  heartbeat_interval_seconds :: int

definition default_settings :: Settings where
  "default_settings =
     \<lparr> task_queue_name = ''diamond_mind:tasks'',
       result_queue_name = ''diamond_mind:results'',
       alert_queue_name = ''diamond_mind:alerts'',
       heartbeat_interval_seconds = 60 \<rparr>"

text \<open>
  The Redis server as the client sees it: one key space whose values are lists (head
  first: LPUSH adds at the head, BRPOP takes from the tail) or hashes, the messages
  published on channels, and for each command still to come whether the connection
  raises on it (\<open>faults\<close>: the first entry is for the next command, \<open>Some m\<close> is a
  connection or timeout error with text \<open>m\<close>, and a command past the end of the list
  does not raise). A command that raises leaves the server as it was.
\<close>

datatype rval = RList "string list" | RHash "string \<rightharpoonup> string"

record redis =
  keyspace :: "string \<rightharpoonup> rval"
  channels :: "(string \<times> string) list"
  faults :: "string option list"

definition wrongtype :: exn where
  "wrongtype = Exception ''WRONGTYPE Operation against a key holding the wrong kind of value''"

definition next_fault :: "redis \<Rightarrow> string option \<times> redis" where
  "next_fault r = (case faults r of [] \<Rightarrow> (None, r) | f # fs \<Rightarrow> (f, r\<lparr>faults := fs\<rparr>))"

definition redis_lpush :: "string \<Rightarrow> string \<Rightarrow> redis \<Rightarrow> (exn + nat) \<times> redis" where
  "redis_lpush k v r =
     (case next_fault r of
        (Some m, r') \<Rightarrow> (Inl (Exception m), r')
      | (None, r') \<Rightarrow>
          (case keyspace r' k of
             None \<Rightarrow> (Inr 1, r'\<lparr>keyspace := (keyspace r')(k \<mapsto> RList [v])\<rparr>)
           | Some (RList xs) \<Rightarrow>
               (Inr (Suc (length xs)), r'\<lparr>keyspace := (keyspace r')(k \<mapsto> RList (v # xs))\<rparr>)
           | Some (RHash h) \<Rightarrow> (Inl wrongtype, r')))"

text \<open>
  BRPOP on one key. With no list at the key the call blocks for the timeout and returns
  nothing (no other client is modelled). A list that becomes empty is deleted.
\<close>

definition redis_brpop :: "string \<Rightarrow> int \<Rightarrow> redis \<Rightarrow> (exn + (string \<times> string) option) \<times> redis" where
  "redis_brpop k timeout r =
     (case next_fault r of
        (Some m, r') \<Rightarrow> (Inl (Exception m), r')
      | (None, r') \<Rightarrow>
          (case keyspace r' k of
             None \<Rightarrow> (Inr None, r')
           | Some (RList xs) \<Rightarrow>
               (if xs = [] then (Inr None, r')
                else (Inr (Some (k, last xs)),
                      r'\<lparr>keyspace := (if butlast xs = [] then (keyspace r')(k := None)
                                       else (keyspace r')(k \<mapsto> RList (butlast xs)))\<rparr>))
           | Some (RHash h) \<Rightarrow> (Inl wrongtype, r')))"

definition redis_hset :: "string \<Rightarrow> (string \<times> string) list \<Rightarrow> redis \<Rightarrow> (exn + nat) \<times> redis" where
  "redis_hset k kvs r =
     (case next_fault r of
        (Some m, r') \<Rightarrow> (Inl (Exception m), r')
      | (None, r') \<Rightarrow>
          (case keyspace r' k of
             None \<Rightarrow> (Inr (length kvs), r'\<lparr>keyspace := (keyspace r')(k \<mapsto> RHash (map_of (rev kvs)))\<rparr>)
           | Some (RHash h) \<Rightarrow>
               (Inr (length (filter (\<lambda>kv. h (fst kv) = None) kvs)),
                r'\<lparr>keyspace := (keyspace r')(k \<mapsto> RHash (h ++ map_of (rev kvs)))\<rparr>)
           | Some (RList xs) \<Rightarrow> (Inl wrongtype, r')))"

definition redis_hget :: "string \<Rightarrow> string \<Rightarrow> redis \<Rightarrow> (exn + string option) \<times> redis" where
  "redis_hget k f r =
     (case next_fault r of
        (Some m, r') \<Rightarrow> (Inl (Exception m), r')
      | (None, r') \<Rightarrow>
          (case keyspace r' k of
             None \<Rightarrow> (Inr None, r')
           | Some (RHash h) \<Rightarrow> (Inr (h f), r')
           | Some (RList xs) \<Rightarrow> (Inl wrongtype, r')))"

definition redis_publish :: "string \<Rightarrow> string \<Rightarrow> redis \<Rightarrow> (exn + nat) \<times> redis" where
  "redis_publish c m r =
     (case next_fault r of
        (Some m, r') \<Rightarrow> (Inl (Exception m), r')
      | (None, r') \<Rightarrow> (Inr 0, r'\<lparr>channels := channels r' @ [(c, m)]\<rparr>))"

text \<open>
  What the runtime does that can be seen from outside it, in order: the handler methods
  it invokes, the methods of the message queue it calls, and its sleeps. No function of
  the model reads the trace.
\<close>

datatype action =
    Invoke_initialize
  | Invoke_cleanup
  | Invoke_handle_task AgentTask
  | Call_consume_task int
  | Call_publish_result AgentResult
  | Call_publish_alert AgentAlert
  | Call_get_result string
  | Call_update_agent_heartbeat string
  | Sleep real

datatype level = LOG_INFO | LOG_WARNING | LOG_ERROR

text \<open>
  The state outside one agent object: the module-level \<open>message_queue\<close> (its
  \<open>redis_client\<close>, \<open>None\<close> until \<open>connect\<close> has run), the module-level \<open>settings\<close>, the wall
  clock (\<open>clock w n\<close> is what the \<open>n\<close>-th call of \<open>datetime.now()\<close> returns), the values
  \<open>uuid.uuid4()\<close> returns, for each \<open>asyncio.sleep\<close> (and each other point of
  cancellation, see \<open>cancel_point\<close>) still to come whether the coroutine is cancelled
  there (\<open>interrupts\<close>), the log records written (logger name, level, message) and the
  trace.
\<close>

record world =
  redis_client :: "redis option"
  settings :: Settings
  clock :: "nat \<Rightarrow> datetime"
  ticks :: nat
  uuid4s :: "nat \<Rightarrow> string"
  uuids_drawn :: nat
  interrupts :: "bool list"
  log_records :: "(string \<times> level \<times> string) list"
  trace :: "action list"

definition now :: "world \<Rightarrow> datetime \<times> world" where
  "now w = (clock w (ticks w), w\<lparr>ticks := Suc (ticks w)\<rparr>)"

definition uuid4 :: "world \<Rightarrow> string \<times> world" where
  "uuid4 w = (uuid4s w (uuids_drawn w), w\<lparr>uuids_drawn := Suc (uuids_drawn w)\<rparr>)"

definition logger :: "string \<Rightarrow> level \<Rightarrow> string \<Rightarrow> world \<Rightarrow> world" where
  "logger name lv msg w = w\<lparr>log_records := log_records w @ [(name, lv, msg)]\<rparr>"

definition did :: "action \<Rightarrow> world \<Rightarrow> world" where
  "did a w = w\<lparr>trace := trace w @ [a]\<rparr>"

definition asyncio_sleep :: "real \<Rightarrow> world \<Rightarrow> (exn + unit) \<times> world" where
  "asyncio_sleep d w =
     (case interrupts w of
        [] \<Rightarrow> (Inr (), did (Sleep d) w)
      | c # cs \<Rightarrow> (if c then Inl CancelledError else Inr (), did (Sleep d) (w\<lparr>interrupts := cs\<rparr>)))"

text \<open>
  A point of an await other than a sleep at which the coroutine can be cancelled: the
  next entry of \<open>interrupts\<close> says whether it is. In this model the coroutine of the
  heartbeat, which \<open>stop\<close> cancels, can be cancelled while it awaits its write as well as
  while it sleeps; the main coroutine can be cancelled where it sleeps.
\<close>

definition cancel_point :: "world \<Rightarrow> bool \<times> world" where
  "cancel_point w =
     (case interrupts w of [] \<Rightarrow> (False, w) | c # cs \<Rightarrow> (c, w\<lparr>interrupts := cs\<rparr>))"

text \<open>
  A command sent through \<open>self.redis_client\<close>. Before \<open>connect\<close> the attribute is \<open>None\<close>
  and looking a method up on it raises an \<open>AttributeError\<close>.
\<close>

definition with_client :: "string \<Rightarrow> (redis \<Rightarrow> (exn + 'a) \<times> redis) \<Rightarrow> world \<Rightarrow> (exn + 'a) \<times> world" where
  "with_client method cmd w =
     (case redis_client w of
        None \<Rightarrow> (Inl (Exception (''NoneType object has no attribute '' @ method)), w)
      | Some r \<Rightarrow> (case cmd r of (res, r') \<Rightarrow> (res, w\<lparr>redis_client := Some r'\<rparr>)))"

section \<open>The message queue (diamond\_mind/shared/messaging.py)\<close>

text \<open>
  Each method with a \<open>try\<close> block is two definitions: the body of the \<open>try\<close>, which can
  raise, and the method, which adds the \<open>except Exception\<close> clause. The logger of the
  module is named \<open>messaging\<close>.
\<close>

definition consume_task_try :: "pylib \<Rightarrow> int \<Rightarrow> world \<Rightarrow> (exn + AgentTask option) \<times> world" where
  "consume_task_try L timeout w =
     (case with_client ''brpop'' (redis_brpop (task_queue_name (settings w)) timeout) w of
        (Inl e, w') \<Rightarrow> (Inl e, w')
      | (Inr None, w') \<Rightarrow> (Inr None, w')
      | (Inr (Some (k, task_json)), w') \<Rightarrow>
          (case load_task L task_json of
             Inl m \<Rightarrow> (Inl (Exception m), w')
           | Inr t \<Rightarrow> (Inr (Some t), w')))"

definition consume_task :: "pylib \<Rightarrow> int \<Rightarrow> world \<Rightarrow> (exn + AgentTask option) \<times> world" where
  "consume_task L timeout w =
     (case consume_task_try L timeout (did (Call_consume_task timeout) w) of
        (Inl (Exception m), w') \<Rightarrow>
          (Inr None, logger ''messaging'' LOG_ERROR (''Failed to consume task: '' @ m) w')
      | (res, w') \<Rightarrow> (res, w'))"

definition publish_result_try :: "pylib \<Rightarrow> AgentResult \<Rightarrow> world \<Rightarrow> (exn + bool) \<times> world" where
  "publish_result_try L result w =
     (case dump_result L result of
        Inl m \<Rightarrow> (Inl (Exception m), w)
      | Inr result_json \<Rightarrow>
          (case with_client ''lpush'' (redis_lpush (result_queue_name (settings w)) result_json) w of
             (Inl e, w1) \<Rightarrow> (Inl e, w1)
           | (Inr n, w1) \<Rightarrow>
               (case redis_client w1 of
                  None \<Rightarrow> (Inl (Exception ''NoneType object has no attribute hset''), w1)
                | Some r \<Rightarrow>
                    (case now w1 of
                       (stamp, w2) \<Rightarrow>
                         (case with_client ''hset''
                                 (redis_hset (''results:'' @ r_task_id result)
                                    [(''data'', result_json), (''timestamp'', isoformat L stamp)]) w2 of
                            (Inl e, w3) \<Rightarrow> (Inl e, w3)
                          | (Inr n', w3) \<Rightarrow>
                              (Inr True,
                               logger ''messaging'' LOG_INFO
                                 (''Published result for task '' @ r_task_id result) w3))))))"

definition publish_result :: "pylib \<Rightarrow> AgentResult \<Rightarrow> world \<Rightarrow> (exn + bool) \<times> world" where
  "publish_result L result w =
     (case publish_result_try L result (did (Call_publish_result result) w) of
        (Inl (Exception m), w') \<Rightarrow>
          (Inr False, logger ''messaging'' LOG_ERROR (''Failed to publish result: '' @ m) w')
      | (res, w') \<Rightarrow> (res, w'))"

definition get_result_try :: "pylib \<Rightarrow> string \<Rightarrow> world \<Rightarrow> (exn + AgentResult option) \<times> world" where
  "get_result_try L tid w =
     (case with_client ''hget'' (redis_hget (''results:'' @ tid) ''data'') w of
        (Inl e, w') \<Rightarrow> (Inl e, w')
      | (Inr None, w') \<Rightarrow> (Inr None, w')
      | (Inr (Some data_json), w') \<Rightarrow>
          (if data_json = [] then (Inr None, w')
           else (case load_result L data_json of
                   Inl m \<Rightarrow> (Inl (Exception m), w')
                 | Inr res \<Rightarrow> (Inr (Some res), w'))))"

definition get_result :: "pylib \<Rightarrow> string \<Rightarrow> world \<Rightarrow> (exn + AgentResult option) \<times> world" where
  "get_result L tid w =
     (case get_result_try L tid (did (Call_get_result tid) w) of
        (Inl (Exception m), w') \<Rightarrow>
          (Inr None, logger ''messaging'' LOG_ERROR (''Failed to get result: '' @ m) w')
      | (res, w') \<Rightarrow> (res, w'))"

definition publish_alert_try :: "pylib \<Rightarrow> AgentAlert \<Rightarrow> world \<Rightarrow> (exn + bool) \<times> world" where
  "publish_alert_try L alert w =
     (case dump_alert L alert of
        Inl m \<Rightarrow> (Inl (Exception m), w)
      | Inr alert_json \<Rightarrow>
          (case with_client ''lpush'' (redis_lpush (alert_queue_name (settings w)) alert_json) w of
             (Inl e, w1) \<Rightarrow> (Inl e, w1)
           | (Inr n, w1) \<Rightarrow>
               (case with_client ''publish'' (redis_publish ''alerts'' alert_json) w1 of
                  (Inl e, w2) \<Rightarrow> (Inl e, w2)
                | (Inr n', w2) \<Rightarrow>
                    (Inr True,
                     logger ''messaging'' LOG_WARNING
                       (''Published alert '' @ alert_id alert @ '' from ''
                          @ format_AgentType L (a_agent_id alert) @ '': '' @ message alert) w2))))"

definition publish_alert :: "pylib \<Rightarrow> AgentAlert \<Rightarrow> world \<Rightarrow> (exn + bool) \<times> world" where
  "publish_alert L alert w =
     (case publish_alert_try L alert (did (Call_publish_alert alert) w) of
        (Inl (Exception m), w') \<Rightarrow>
          (Inr False, logger ''messaging'' LOG_ERROR (''Failed to publish alert: '' @ m) w')
      | (res, w') \<Rightarrow> (res, w'))"

text \<open>
  \<open>update_agent_heartbeat\<close> has no \<open>try\<close>: what the command raises, it raises, and so
  does a cancellation that arrives while the command is awaited. The cancellation can
  arrive before the command is sent, and then the server is not changed, or while the
  reply is awaited, after the server has carried the command out.
\<close>

definition update_agent_heartbeat :: "pylib \<Rightarrow> string \<Rightarrow> world \<Rightarrow> (exn + unit) \<times> world" where
  "update_agent_heartbeat L aid w0 =
     (let w = did (Call_update_agent_heartbeat aid) w0 in
      case redis_client w of
        None \<Rightarrow> (Inl (Exception ''NoneType object has no attribute hset''), w)
      | Some r \<Rightarrow>
          (case now w of
             (stamp, w1) \<Rightarrow>
               (case cancel_point w1 of
                  (True, w2) \<Rightarrow> (Inl CancelledError, w2)
                | (False, w2) \<Rightarrow>
                    (case with_client ''hset''
                            (redis_hset ''agent_heartbeats'' [(aid, isoformat L stamp)]) w2 of
                       (Inl e, w3) \<Rightarrow> (Inl e, w3)
                     | (Inr n, w3) \<Rightarrow>
                         (case cancel_point w3 of
                            (True, w4) \<Rightarrow> (Inl CancelledError, w4)
                          | (False, w4) \<Rightarrow> (Inr (), w4))))))"

section \<open>The agent runtime (diamond\_mind/shared/base\_agent.py)\<close>

text \<open>
  The task object \<open>asyncio.create_task\<close> returns, as far as \<open>start\<close> and \<open>stop\<close> use it:
  scheduled on the event loop, or cancelled. Its body is \<open>heartbeat_loop\<close> below. The
  event loop's interleaving of the two coroutines is not modelled; what one coroutine
  sees of the other is given by schedules (a cancellation at an await, the running flag
  cleared while the heartbeat is suspended).
\<close>

datatype asyncio_task = Scheduled | Cancelled

text \<open>
  The fields of a \<open>BaseAgent\<close>; its \<open>agent_id\<close> is \<open>self_agent_id\<close> and its
  \<open>_heartbeat_task\<close> is \<open>heartbeat_task\<close>. The logger of an agent is named by the value of
  its agent id.
\<close>

record BaseAgent =
  self_agent_id :: AgentType
  is_running :: bool
  start_time :: "datetime option"
  tasks_completed :: nat
  tasks_failed :: nat
  heartbeat_task :: "asyncio_task option"

definition BaseAgent_init :: "AgentType \<Rightarrow> BaseAgent" where
  "BaseAgent_init aid =
     \<lparr> self_agent_id = aid, is_running = False, start_time = None, tasks_completed = 0,
       tasks_failed = 0, heartbeat_task = None \<rparr>"

text \<open>
  The three abstract methods a subclass supplies. Each may raise and may act on the
  world (a handler is free to publish alerts of its own); \<open>handle_task\<close> returns an
  \<open>AgentResult\<close>, as its annotation says. The methods do not assign to the fields of
  \<open>BaseAgent\<close> itself.
\<close>

record handler =
  initialize :: "world \<Rightarrow> (exn + unit) \<times> world"
  cleanup :: "world \<Rightarrow> (exn + unit) \<times> world"
  handle_task :: "AgentTask \<Rightarrow> world \<Rightarrow> (exn + AgentResult) \<times> world"

definition agent_logger :: "BaseAgent \<Rightarrow> level \<Rightarrow> string \<Rightarrow> world \<Rightarrow> world" where
  "agent_logger self lv msg w = logger (AgentType_value (self_agent_id self)) lv msg w"

text \<open>\<open>BaseAgent.publish_alert\<close>, with \<open>details or {}\<close> and \<open>suggested_actions or []\<close>.\<close>

definition agent_publish_alert ::
  "pylib \<Rightarrow> BaseAgent \<Rightarrow> AlertSeverity \<Rightarrow> string \<Rightarrow> pydict option \<Rightarrow> bool \<Rightarrow> string list option
     \<Rightarrow> string option \<Rightarrow> world \<Rightarrow> (exn + unit) \<times> world" where
  "agent_publish_alert L self sev msg dets req acts rel w =
     (case uuid4 w of
        (aid, w1) \<Rightarrow>
          (case now w1 of
             (stamp, w2) \<Rightarrow>
               (case publish_alert L
                       \<lparr> alert_id = aid, a_agent_id = self_agent_id self, severity = sev,
                         message = msg, details = (case dets of None \<Rightarrow> [] | Some d \<Rightarrow> d),
                         timestamp = stamp, requires_action = req,
                         suggested_actions = (case acts of None \<Rightarrow> [] | Some a \<Rightarrow> a),
                         related_task_id = rel \<rparr> w2 of
                  (Inl e, w3) \<Rightarrow> (Inl e, w3)
                | (Inr b, w3) \<Rightarrow> (Inr (), w3))))"

text \<open>
  \<open>_execute_task\<close>. Before the \<open>try\<close> the clock is read (\<open>start_time\<close>, here
  \<open>started\<close>) and a line is logged; \<open>execute_task_begin\<close> returns the reading and the
  world in which the handler is then invoked.
\<close>

definition execute_task_begin :: "AgentTask \<Rightarrow> BaseAgent \<Rightarrow> world \<Rightarrow> datetime \<times> world" where
  "execute_task_begin task self w =
     (case now w of
        (started, w0) \<Rightarrow>
          (started,
           did (Invoke_handle_task task)
             (agent_logger self LOG_INFO
                (''Executing task '' @ task_id task @ '': '' @ task_type task) w0)))"

text \<open>
  The body of the \<open>try\<close>: the handler's result gets its \<open>duration_seconds\<close> assigned and
  is published, and the value \<open>publish_result\<close> returns is dropped.
\<close>

definition execute_task_try ::
  "pylib \<Rightarrow> handler \<Rightarrow> datetime \<Rightarrow> AgentTask \<Rightarrow> BaseAgent \<Rightarrow> world \<Rightarrow> (exn + unit) \<times> BaseAgent \<times> world" where
  "execute_task_try L h started task self w =
     (case handle_task h task w of
        (Inl e, w1) \<Rightarrow> (Inl e, self, w1)
      | (Inr result, w1) \<Rightarrow>
          (case now w1 of
             (finished, w2) \<Rightarrow>
               (let duration = finished - started;
                    result' = result\<lparr>duration_seconds := duration\<rparr>
                in case publish_result L result' w2 of
                     (Inl e, w3) \<Rightarrow> (Inl e, self, w3)
                   | (Inr b, w3) \<Rightarrow>
                       (Inr (), self\<lparr>tasks_completed := tasks_completed self + 1\<rparr>,
                        agent_logger self LOG_INFO
                          (''Task '' @ task_id task @ '' completed successfully in ''
                             @ format_2f L duration @ ''s'') w3))))"

text \<open>The \<open>except Exception as e\<close> clause of \<open>_execute_task\<close>, with \<open>msg = str(e)\<close>.\<close>

definition execute_task_except ::
  "pylib \<Rightarrow> string \<Rightarrow> datetime \<Rightarrow> AgentTask \<Rightarrow> BaseAgent \<Rightarrow> world \<Rightarrow> (exn + unit) \<times> BaseAgent \<times> world" where
  "execute_task_except L msg started task self w =
     (let self' = self\<lparr>tasks_failed := tasks_failed self + 1\<rparr>;
          w1 = agent_logger self LOG_ERROR (''Task '' @ task_id task @ '' failed: '' @ msg) w
      in case now w1 of
           (finished, w2) \<Rightarrow>
             (case now w2 of
                (stamp, w3) \<Rightarrow>
                  (case AgentResult_init (task_id task) (self_agent_id self) FAILED (Some msg)
                          (finished - started) stamp of
                     Inl e \<Rightarrow> (Inl e, self', w3)
                   | Inr result \<Rightarrow>
                       (case publish_result L result w3 of
                          (Inl e, w4) \<Rightarrow> (Inl e, self', w4)
                        | (Inr b, w4) \<Rightarrow>
                            (if priority task = CRITICAL then
                               (case agent_publish_alert L self ALERT_CRITICAL
                                       (''Critical task '' @ task_id task @ '' failed: '' @ msg)
                                       None False None (Some (task_id task)) w4 of
                                  (res, w5) \<Rightarrow> (res, self', w5))
                             else (Inr (), self', w4))))))"

definition execute_task ::
  "pylib \<Rightarrow> handler \<Rightarrow> AgentTask \<Rightarrow> BaseAgent \<Rightarrow> world \<Rightarrow> (exn + unit) \<times> BaseAgent \<times> world" where
  "execute_task L h task self w =
     (case execute_task_begin task self w of
        (started, w0) \<Rightarrow>
          (case execute_task_try L h started task self w0 of
             (Inl (Exception msg), self1, w1) \<Rightarrow> execute_task_except L msg started task self1 w1
           | (res, self1, w1) \<Rightarrow> (res, self1, w1)))"

text \<open>
  One iteration of the \<open>while\<close> loop of \<open>_run_loop\<close>: the body of its \<open>try\<close>, and the
  iteration with its \<open>except Exception\<close> clause.
\<close>

definition run_iteration_try ::
  "pylib \<Rightarrow> handler \<Rightarrow> BaseAgent \<Rightarrow> world \<Rightarrow> (exn + unit) \<times> BaseAgent \<times> world" where
  "run_iteration_try L h self w =
     (case consume_task L 5 w of
        (Inl e, w1) \<Rightarrow> (Inl e, self, w1)
      | (Inr None, w1) \<Rightarrow>
          (case asyncio_sleep (1 / 10) w1 of (res, w2) \<Rightarrow> (res, self, w2))
      | (Inr (Some task), w1) \<Rightarrow>
          (if agent_id task = self_agent_id self then
             (case execute_task L h task self w1 of
                (Inl e, self2, w2) \<Rightarrow> (Inl e, self2, w2)
              | (Inr u, self2, w2) \<Rightarrow>
                  (case asyncio_sleep (1 / 10) w2 of (res, w3) \<Rightarrow> (res, self2, w3)))
           else (case asyncio_sleep (1 / 10) w1 of (res, w2) \<Rightarrow> (res, self, w2))))"

definition run_iteration ::
  "pylib \<Rightarrow> handler \<Rightarrow> BaseAgent \<Rightarrow> world \<Rightarrow> (exn + unit) \<times> BaseAgent \<times> world" where
  "run_iteration L h self w =
     (case run_iteration_try L h self w of
        (Inl (Exception m), self1, w1) \<Rightarrow>
          (case asyncio_sleep 1 (agent_logger self LOG_ERROR (''Error in main loop: '' @ m) w1) of
             (res, w2) \<Rightarrow> (res, self1, w2))
      | (res, self1, w1) \<Rightarrow> (res, self1, w1))"

text \<open>
  The loop of \<open>_run_loop\<close>, which may run forever: \<open>n\<close> bounds the iterations, and \<open>None\<close>
  is a loop that is still running after \<open>n\<close> of them. \<open>Some (Inr ())\<close> is a return and
  \<open>Some (Inl e)\<close> an exception that leaves the loop.
\<close>

fun run_while ::
  "pylib \<Rightarrow> handler \<Rightarrow> nat \<Rightarrow> BaseAgent \<Rightarrow> world \<Rightarrow> (exn + unit) option \<times> BaseAgent \<times> world" where
  "run_while L h 0 self w = (if is_running self then (None, self, w) else (Some (Inr ()), self, w))"
| "run_while L h (Suc n) self w =
     (if is_running self then
        (case run_iteration L h self w of
           (Inl e, self1, w1) \<Rightarrow> (Some (Inl e), self1, w1)
         | (Inr u, self1, w1) \<Rightarrow> run_while L h n self1 w1)
      else (Some (Inr ()), self, w))"

definition run_loop ::
  "pylib \<Rightarrow> handler \<Rightarrow> nat \<Rightarrow> BaseAgent \<Rightarrow> world \<Rightarrow> (exn + unit) option \<times> BaseAgent \<times> world" where
  "run_loop L h n self w =
     run_while L h n self
       (agent_logger self LOG_INFO
          (''Agent '' @ AgentType_value (self_agent_id self) @ '' entering main loop'') w)"

text \<open>
  \<open>start\<close>. Its first statements set the flag and the start time and create the
  heartbeat task; \<open>start_begin\<close> returns the agent after them and the world in which
  \<open>initialize\<close> is then awaited. An exception of \<open>initialize\<close> leaves \<open>start\<close> at once.
\<close>

definition start_begin :: "BaseAgent \<Rightarrow> world \<Rightarrow> BaseAgent \<times> world" where
  "start_begin self w =
     (case now (agent_logger self LOG_INFO
                  (''Starting agent: '' @ AgentType_value (self_agent_id self)) w) of
        (t, w1) \<Rightarrow>
          (self\<lparr>is_running := True, start_time := Some t, heartbeat_task := Some Scheduled\<rparr>,
           did Invoke_initialize w1))"

definition start ::
  "pylib \<Rightarrow> handler \<Rightarrow> nat \<Rightarrow> BaseAgent \<Rightarrow> world \<Rightarrow> (exn + unit) option \<times> BaseAgent \<times> world" where
  "start L h n self w =
     (case start_begin self w of
        (self1, w1) \<Rightarrow>
          (case initialize h w1 of
             (Inl e, w2) \<Rightarrow> (Some (Inl e), self1, w2)
           | (Inr u, w2) \<Rightarrow> run_loop L h n self1 w2))"

text \<open>
  \<open>stop\<close>: the flag is cleared, a heartbeat task that exists is cancelled and awaited
  (the \<open>CancelledError\<close> of the await is swallowed), then \<open>cleanup\<close> runs.
\<close>

definition stop :: "handler \<Rightarrow> BaseAgent \<Rightarrow> world \<Rightarrow> (exn + unit) \<times> BaseAgent \<times> world" where
  "stop h self w =
     (let w1 = agent_logger self LOG_INFO (''Stopping agent: '' @ AgentType_value (self_agent_id self)) w;
          self1 = self\<lparr>is_running := False\<rparr>;
          self2 = (case heartbeat_task self1 of
                     None \<Rightarrow> self1
                   | Some t \<Rightarrow> self1\<lparr>heartbeat_task := Some Cancelled\<rparr>)
      in case cleanup h (did Invoke_cleanup w1) of (res, w2) \<Rightarrow> (res, self2, w2))"

text \<open>
  One iteration of the loop of \<open>_heartbeat_loop\<close>. A \<open>CancelledError\<close> raised in the \<open>try\<close>
  ends the loop (\<open>break\<close>); an \<open>Exception\<close> is logged and followed by a sleep of the same
  interval, and a \<open>CancelledError\<close> during that sleep leaves the coroutine.
\<close>

datatype step = Continue | Break | Propagate exn

definition heartbeat_iteration :: "pylib \<Rightarrow> BaseAgent \<Rightarrow> world \<Rightarrow> step \<times> world" where
  "heartbeat_iteration L self w =
     (let interval = real_of_int (heartbeat_interval_seconds (settings w));
          tried = (case update_agent_heartbeat L (AgentType_value (self_agent_id self)) w of
                     (Inl e, w1) \<Rightarrow> (Inl e, w1)
                   | (Inr u, w1) \<Rightarrow> asyncio_sleep interval w1)
      in case tried of
           (Inr u, w2) \<Rightarrow> (Continue, w2)
         | (Inl CancelledError, w2) \<Rightarrow> (Break, w2)
         | (Inl (Exception m), w2) \<Rightarrow>
             (case asyncio_sleep interval (agent_logger self LOG_ERROR (''Heartbeat error: '' @ m) w2) of
                (Inl e, w3) \<Rightarrow> (Propagate e, w3)
              | (Inr u, w3) \<Rightarrow> (Continue, w3)))"

text \<open>
  The loop of \<open>_heartbeat_loop\<close>. It reads \<open>self.is_running\<close> before every pass, and
  another coroutine (\<open>stop\<close>) can clear the flag while a pass is suspended in an await:
  \<open>cleared\<close> says for each pass to come whether that happens during it. The loop may run
  forever; the length of \<open>cleared\<close> bounds the passes, and \<open>None\<close> is a loop that is
  still running after them.
\<close>

fun heartbeat_loop ::
  "pylib \<Rightarrow> bool list \<Rightarrow> BaseAgent \<Rightarrow> world \<Rightarrow> (exn + unit) option \<times> BaseAgent \<times> world" where
  "heartbeat_loop L [] self w =
     (if is_running self then (None, self, w) else (Some (Inr ()), self, w))"
| "heartbeat_loop L (c # cleared) self w =
     (if is_running self then
        (let self' = (if c then self\<lparr>is_running := False\<rparr> else self)
         in case heartbeat_iteration L self w of
              (Continue, w1) \<Rightarrow> heartbeat_loop L cleared self' w1
            | (Break, w1) \<Rightarrow> (Some (Inr ()), self', w1)
            | (Propagate e, w1) \<Rightarrow> (Some (Inl e), self', w1))
      else (Some (Inr ()), self, w))"

section \<open>Measures and example inputs\<close>

text \<open>The number of times the handler's \<open>handle_task\<close> was invoked, read off a trace.\<close>

fun is_invocation :: "action \<Rightarrow> bool" where
  "is_invocation (Invoke_handle_task t) = True"
| "is_invocation a = False"

definition executed :: "action list \<Rightarrow> nat" where
  "executed tr = length (filter is_invocation tr)"

text \<open>
  What is stored on the server, for stating properties: the list at a key (empty when
  the key holds no list) and a field of the hash at a key.
\<close>

definition queue :: "redis \<Rightarrow> string \<Rightarrow> string list" where
  "queue r k = (case keyspace r k of Some (RList xs) \<Rightarrow> xs | _ \<Rightarrow> [])"

definition stored :: "redis \<Rightarrow> string \<Rightarrow> string \<Rightarrow> string option" where
  "stored r k f = (case keyspace r k of Some (RHash h) \<Rightarrow> h f | _ \<Rightarrow> None)"

text \<open>Whether the coroutine is cancelled at the next point where it can be.\<close>

definition interrupted :: "world \<Rightarrow> bool" where
  "interrupted w = (case interrupts w of [] \<Rightarrow> False | c # cs \<Rightarrow> c)"

text \<open>
  Concrete inputs for the examples below: a task \<open>T1\<close>, a result for it, a library whose
  codecs know a few texts, a Redis server with nothing stored, two clocks (one that
  advances and one that steps backwards), and handlers whose methods give a fixed
  outcome. As \<open>model_dump_json\<close> does, the codec serialises a result whatever its
  \<open>duration_seconds\<close>; as \<open>model_validate_json\<close> does, it refuses the text of a result
  with a negative \<open>duration_seconds\<close> (the field is declared \<open>ge=0\<close>).
\<close>

definition example_task :: "AgentType \<Rightarrow> TaskPriority \<Rightarrow> AgentTask" where
  "example_task a p =
     \<lparr> task_id = ''T1'', agent_id = a, task_type = ''check_data_quality'', priority = p,
       parameters = [], created_at = 0, timeout_seconds = None, retry_count = 0, max_retries = 3 \<rparr>"

definition example_result :: "TaskStatus \<Rightarrow> string option \<Rightarrow> AgentResult" where
  "example_result st err =
     \<lparr> r_task_id = ''T1'', r_agent_id = DATA_QUALITY, status = st, result_data = None,
       metrics = [], artifacts = [], duration_seconds = 0, completed_at = 0, error_message = err \<rparr>"

definition example_lib :: pylib where
  "example_lib =
     \<lparr> load_task = (\<lambda>s. if s = ''task T1 data_quality'' then Inr (example_task DATA_QUALITY HIGH)
                         else if s = ''task T1 model_monitor'' then Inr (example_task MODEL_MONITOR HIGH)
                         else Inl ''Expecting value: line 1 column 1 (char 0)''),
       dump_result = (\<lambda>r. Inr (''result '' @ r_task_id r @ (if status r = FAILED then '' failed'' else '' ok'')
                                  @ (if duration_seconds r < 0 then '' -1.0'' else []))),
       load_result = (\<lambda>s. if s = ''result T1 ok'' then Inr (example_result COMPLETED None)
                           else if s = ''result T1 failed'' then Inr (example_result FAILED (Some ''boom''))
                           else if s = ''result T1 ok -1.0'' \<or> s = ''result T1 failed -1.0''
                           then Inl ''1 validation error for AgentResult: duration_seconds: Input should be greater than or equal to 0''
                           else Inl ''Expecting value: line 1 column 1 (char 0)''),
       dump_alert = (\<lambda>a. Inr (''alert '' @ alert_id a)),
       isoformat = (\<lambda>t. ''2024-01-01T00:00:00''),
       format_AgentType = AgentType_value,
       format_2f = (\<lambda>d. ''0.00'') \<rparr>"

definition example_redis :: "(string \<times> rval) list \<Rightarrow> string option list \<Rightarrow> redis" where
  "example_redis kvs fs = \<lparr> keyspace = map_of kvs, channels = [], faults = fs \<rparr>"

definition rising_clock :: "nat \<Rightarrow> datetime" where
  "rising_clock n = real n"

definition falling_clock :: "nat \<Rightarrow> datetime" where
  "falling_clock n = 10 - real n"

definition no_uuid :: "nat \<Rightarrow> string" where
  "no_uuid n = ''00000000-0000-4000-8000-000000000000''"

definition example_world :: "redis option \<Rightarrow> (nat \<Rightarrow> datetime) \<Rightarrow> bool list \<Rightarrow> world" where
  "example_world rc ck ints =
     \<lparr> redis_client = rc, settings = default_settings, clock = ck, ticks = 0,
       uuid4s = no_uuid, uuids_drawn = 0, interrupts = ints, log_records = [], trace = [] \<rparr>"

definition example_handler :: "exn + unit \<Rightarrow> exn + AgentResult \<Rightarrow> handler" where
  "example_handler init out =
     \<lparr> initialize = (\<lambda>w. (init, w)), cleanup = (\<lambda>w. (Inr (), w)),
       handle_task = (\<lambda>t w. (out, w)) \<rparr>"


definition example_down_world :: world where
  "example_down_world =
     example_world
       (Some (example_redis [(''diamond_mind:tasks'', RList [''task T1 data_quality''])]
                [Some ''Connection refused'']))
       rising_clock []"

definition example_half_down_world :: world where
  "example_half_down_world =
     example_world (Some (example_redis [] [None, Some ''Connection reset by peer''])) rising_clock []"

definition example_running_agent :: BaseAgent where
  "example_running_agent = (BaseAgent_init DATA_QUALITY)\<lparr>is_running := True\<rparr>"

section \<open>Properties of the message queue and of task execution\<close>

text \<open>
  The methods of the message queue with a \<open>try\<close> block return: what the Redis commands
  raise is an \<open>Exception\<close>, and the \<open>except\<close> clause turns it into a value. They change
  the connection, the log and the trace only (and \<open>publish_result\<close> reads the clock).
\<close>

lemma redis_cmd_no_cancel:
  "fst (redis_lpush k v r) \<noteq> Inl CancelledError"
  "fst (redis_brpop k t r) \<noteq> Inl CancelledError"
  "fst (redis_hset k kvs r) \<noteq> Inl CancelledError"
  "fst (redis_hget k f r) \<noteq> Inl CancelledError"
  "fst (redis_publish c m r) \<noteq> Inl CancelledError"
  by (simp_all add: redis_lpush_def redis_brpop_def redis_hset_def redis_hget_def redis_publish_def
        next_fault_def wrongtype_def split: list.splits option.splits rval.splits)

lemma with_client_frame:
  assumes "with_client meth cmd w = (res, w')"
  shows "trace w' = trace w \<and> clock w' = clock w \<and> ticks w' = ticks w \<and> interrupts w' = interrupts w
       \<and> settings w' = settings w \<and> uuid4s w' = uuid4s w \<and> uuids_drawn w' = uuids_drawn w
       \<and> log_records w' = log_records w"
  using assms by (auto simp: with_client_def split: option.splits prod.splits)

lemma with_client_no_cancel:
  assumes "\<And>r. fst (cmd r) \<noteq> Inl CancelledError"
  shows "with_client meth cmd w \<noteq> (Inl CancelledError, w')"
  using assms by (auto simp: with_client_def split: option.splits prod.splits) (metis fst_conv)

lemma consume_task_try_no_cancel: "consume_task_try L t w \<noteq> (Inl CancelledError, w')"
  using with_client_no_cancel [of "redis_brpop (task_queue_name (settings w)) t" "''brpop''" w, OF redis_cmd_no_cancel(2)]
  by (auto simp: consume_task_try_def split: prod.splits sum.splits option.splits)

lemma consume_task_try_frame:
  assumes "consume_task_try L t w = (res, w')"
  shows "trace w' = trace w \<and> clock w' = clock w \<and> ticks w' = ticks w \<and> interrupts w' = interrupts w
       \<and> settings w' = settings w \<and> uuid4s w' = uuid4s w \<and> uuids_drawn w' = uuids_drawn w
       \<and> log_records w' = log_records w"
  using assms
  by (auto simp: consume_task_try_def split: prod.splits sum.splits option.splits dest!: with_client_frame)

lemma consume_task_returns:
  "\<exists>v w'. consume_task L timeout w = (Inr v, w') \<and> trace w' = trace w @ [Call_consume_task timeout]
     \<and> clock w' = clock w \<and> ticks w' = ticks w \<and> interrupts w' = interrupts w \<and> settings w' = settings w
     \<and> uuid4s w' = uuid4s w \<and> uuids_drawn w' = uuids_drawn w"
  using consume_task_try_no_cancel
  by (auto simp: consume_task_def logger_def did_def split: prod.splits sum.splits exn.splits dest!: consume_task_try_frame)


lemma now_frame:
  assumes "now w = (t, w')"
  shows "t = clock w (ticks w) \<and> w' = w\<lparr>ticks := Suc (ticks w)\<rparr>"
  using assms by (auto simp: now_def)

lemma publish_result_try_no_cancel: "publish_result_try L r w \<noteq> (Inl CancelledError, w')"
  using with_client_no_cancel [OF redis_cmd_no_cancel(1)] with_client_no_cancel [OF redis_cmd_no_cancel(3)]
  by (auto simp: publish_result_try_def split: prod.splits sum.splits option.splits)

lemma publish_result_try_frame:
  assumes "publish_result_try L r w = (res, w')"
  shows "trace w' = trace w \<and> clock w' = clock w \<and> interrupts w' = interrupts w
       \<and> settings w' = settings w \<and> uuid4s w' = uuid4s w \<and> uuids_drawn w' = uuids_drawn w"
  using assms
  by (auto simp: publish_result_try_def logger_def split: prod.splits sum.splits option.splits
      dest!: with_client_frame now_frame)

lemma publish_result_returns:
  "\<exists>b w'. publish_result L r w = (Inr b, w') \<and> trace w' = trace w @ [Call_publish_result r]
     \<and> clock w' = clock w \<and> interrupts w' = interrupts w \<and> settings w' = settings w
     \<and> uuid4s w' = uuid4s w \<and> uuids_drawn w' = uuids_drawn w"
  using publish_result_try_no_cancel
  by (auto simp: publish_result_def logger_def did_def split: prod.splits sum.splits exn.splits
      dest!: publish_result_try_frame)

lemma publish_alert_try_no_cancel: "publish_alert_try L a w \<noteq> (Inl CancelledError, w')"
  using with_client_no_cancel [OF redis_cmd_no_cancel(1)] with_client_no_cancel [OF redis_cmd_no_cancel(5)]
  by (auto simp: publish_alert_try_def split: prod.splits sum.splits option.splits)

lemma publish_alert_try_frame:
  assumes "publish_alert_try L a w = (res, w')"
  shows "trace w' = trace w \<and> clock w' = clock w \<and> ticks w' = ticks w \<and> interrupts w' = interrupts w
       \<and> settings w' = settings w \<and> uuid4s w' = uuid4s w \<and> uuids_drawn w' = uuids_drawn w"
  using assms
  by (auto simp: publish_alert_try_def logger_def split: prod.splits sum.splits option.splits
      dest!: with_client_frame)

lemma publish_alert_returns:
  "\<exists>b w'. publish_alert L a w = (Inr b, w') \<and> trace w' = trace w @ [Call_publish_alert a]
     \<and> clock w' = clock w \<and> ticks w' = ticks w \<and> interrupts w' = interrupts w \<and> settings w' = settings w
     \<and> uuid4s w' = uuid4s w \<and> uuids_drawn w' = uuids_drawn w"
  using publish_alert_try_no_cancel
  by (auto simp: publish_alert_def logger_def did_def split: prod.splits sum.splits exn.splits
      dest!: publish_alert_try_frame)

lemma get_result_try_no_cancel: "get_result_try L tid w \<noteq> (Inl CancelledError, w')"
  using with_client_no_cancel [OF redis_cmd_no_cancel(4)]
  by (auto simp: get_result_try_def split: prod.splits sum.splits option.splits if_splits)

lemma get_result_returns: "\<exists>v w'. get_result L tid w = (Inr v, w')"
  using get_result_try_no_cancel
  by (auto simp: get_result_def split: prod.splits sum.splits exn.splits)

lemma agent_publish_alert_returns:
  "\<exists>a w'. agent_publish_alert L self sev msg dets req acts rel w = (Inr (), w')
     \<and> trace w' = trace w @ [Call_publish_alert a]
     \<and> severity a = sev \<and> related_task_id a = rel \<and> a_agent_id a = self_agent_id self \<and> message a = msg
     \<and> clock w' = clock w \<and> interrupts w' = interrupts w \<and> settings w' = settings w"
proof -
  obtain aid w1 where u: "uuid4 w = (aid, w1)" by (cases "uuid4 w")
  obtain stamp w2 where n: "now w1 = (stamp, w2)" by (cases "now w1")
  let ?a = "\<lparr> alert_id = aid, a_agent_id = self_agent_id self, severity = sev,
                         message = msg, details = (case dets of None \<Rightarrow> [] | Some d \<Rightarrow> d),
                         timestamp = stamp, requires_action = req,
                         suggested_actions = (case acts of None \<Rightarrow> [] | Some a \<Rightarrow> a),
                         related_task_id = rel \<rparr>"
  from publish_alert_returns [of L ?a w2] obtain b w3 where
    p: "publish_alert L ?a w2 = (Inr b, w3)" "trace w3 = trace w2 @ [Call_publish_alert ?a]"
       "clock w3 = clock w2" "interrupts w3 = interrupts w2" "settings w3 = settings w2" by blast
  have "trace w2 = trace w" "clock w2 = clock w" "interrupts w2 = interrupts w" "settings w2 = settings w"
    using u n by (auto simp: uuid4_def now_def)
  with p u n show ?thesis
    by (intro exI [of _ ?a] exI [of _ w3]) (simp add: agent_publish_alert_def)
qed


lemma agent_logger_frame [simp]:
  "trace (agent_logger self lv msg w) = trace w"
  "clock (agent_logger self lv msg w) = clock w"
  "ticks (agent_logger self lv msg w) = ticks w"
  "interrupts (agent_logger self lv msg w) = interrupts w"
  "settings (agent_logger self lv msg w) = settings w"
  "redis_client (agent_logger self lv msg w) = redis_client w"
  "log_records (agent_logger self lv msg w) = log_records w @ [(AgentType_value (self_agent_id self), lv, msg)]"
  by (simp_all add: agent_logger_def logger_def)

lemma execute_task_success:
  assumes "execute_task_begin task self w = (started, w0)"
      and "handle_task h task w0 = (Inr result, w1)"
  shows "\<exists>b w3. publish_result L (result\<lparr>duration_seconds := clock w1 (ticks w1) - started\<rparr>)
                   (w1\<lparr>ticks := Suc (ticks w1)\<rparr>) = (Inr b, w3)
           \<and> trace w3 = trace w1 @ [Call_publish_result (result\<lparr>duration_seconds := clock w1 (ticks w1) - started\<rparr>)]
           \<and> execute_task L h task self w =
               (Inr (), self\<lparr>tasks_completed := tasks_completed self + 1\<rparr>,
                agent_logger self LOG_INFO
                  (''Task '' @ task_id task @ '' completed successfully in ''
                     @ format_2f L (clock w1 (ticks w1) - started) @ ''s'') w3)"
proof -
  let ?r = "result\<lparr>duration_seconds := clock w1 (ticks w1) - started\<rparr>"
  from publish_result_returns [of L ?r "w1\<lparr>ticks := Suc (ticks w1)\<rparr>"]
  obtain b w3 where p: "publish_result L ?r (w1\<lparr>ticks := Suc (ticks w1)\<rparr>) = (Inr b, w3)"
    "trace w3 = trace (w1\<lparr>ticks := Suc (ticks w1)\<rparr>) @ [Call_publish_result ?r]" by blast
  show ?thesis
    using assms p by (simp add: execute_task_def execute_task_try_def now_def Let_def)
qed

lemma execute_task_failure:
  assumes "execute_task_begin task self w = (started, w0)"
      and "handle_task h task w0 = (Inl (Exception msg), w1)"
  shows "execute_task L h task self w = execute_task_except L msg started task self w1"
  using assms by (simp add: execute_task_def execute_task_try_def)


lemma execute_task_except_ok:
  assumes "started \<le> clock w (ticks w)"
  shows "\<exists>a w'. execute_task_except L msg started task self w =
                   (Inr (), self\<lparr>tasks_failed := tasks_failed self + 1\<rparr>, w')
           \<and> trace w' = trace w @
                Call_publish_result
                  \<lparr> r_task_id = task_id task, r_agent_id = self_agent_id self, status = FAILED,
                    result_data = None, metrics = [], artifacts = [],
                    duration_seconds = clock w (ticks w) - started,
                    completed_at = clock w (Suc (ticks w)), error_message = Some msg \<rparr>
                # (if priority task = CRITICAL then [Call_publish_alert a] else [])
           \<and> severity a = ALERT_CRITICAL \<and> related_task_id a = Some (task_id task)
           \<and> a_agent_id a = self_agent_id self"
proof -
  let ?w3 = "(agent_logger self LOG_ERROR (''Task '' @ task_id task @ '' failed: '' @ msg) w)
               \<lparr>ticks := Suc (Suc (ticks w))\<rparr>"
  let ?r = "\<lparr> r_task_id = task_id task, r_agent_id = self_agent_id self, status = FAILED,
                    result_data = None, metrics = [], artifacts = [],
                    duration_seconds = clock w (ticks w) - started,
                    completed_at = clock w (Suc (ticks w)), error_message = Some msg \<rparr>"
  from publish_result_returns [of L ?r ?w3] obtain b w4 where
    p: "publish_result L ?r ?w3 = (Inr b, w4)" "trace w4 = trace w @ [Call_publish_result ?r]"
    by auto
  from agent_publish_alert_returns [of L self ALERT_CRITICAL
        "''Critical task '' @ task_id task @ '' failed: '' @ msg" None False None "Some (task_id task)" w4]
  obtain a w5 where
    q: "agent_publish_alert L self ALERT_CRITICAL (''Critical task '' @ task_id task @ '' failed: '' @ msg)
          None False None (Some (task_id task)) w4 = (Inr (), w5)"
       "trace w5 = trace w4 @ [Call_publish_alert a]" "severity a = ALERT_CRITICAL"
       "related_task_id a = Some (task_id task)" "a_agent_id a = self_agent_id self"
    by blast
  show ?thesis
  proof (cases "priority task = CRITICAL")
    case True
    with assms p q show ?thesis
      by (intro exI [of _ a] exI [of _ w5])
         (simp add: execute_task_except_def now_def Let_def AgentResult_init_def)
  next
    case False
    with assms p q show ?thesis
      by (intro exI [of _ a] exI [of _ w4])
         (simp add: execute_task_except_def now_def Let_def AgentResult_init_def)
  qed
qed




lemmas example_defs = example_task_def example_result_def example_lib_def example_redis_def
  rising_clock_def falling_clock_def no_uuid_def example_world_def example_handler_def
  default_settings_def BaseAgent_init_def

lemmas model_defs = execute_task_def execute_task_begin_def execute_task_try_def execute_task_except_def
  agent_publish_alert_def publish_result_def publish_result_try_def publish_alert_def publish_alert_try_def
  consume_task_def consume_task_try_def get_result_def get_result_try_def update_agent_heartbeat_def
  with_client_def next_fault_def redis_lpush_def redis_brpop_def redis_hset_def
  redis_hget_def redis_publish_def now_def logger_def did_def uuid4_def agent_logger_def
  AgentResult_init_def asyncio_sleep_def run_iteration_def run_iteration_try_def

text \<open>
  A task whose handler raises an \<open>Exception\<close>, executed while the wall clock does not
  step backwards between the reading taken before the handler ran and the reading
  taken after it failed: the runtime calls \<open>publish_result\<close> once, with a result of
  status FAILED for this task, and after it calls \<open>publish_alert\<close> once, with an alert of
  severity CRITICAL whose \<open>related_task_id\<close> is the task's id, exactly when the task's
  priority is CRITICAL; it makes no other call.
\<close>

theorem failed_task_result_then_alert:
  assumes "execute_task_begin task self w = (started, w0)"
      and "handle_task h task w0 = (Inl (Exception msg), w1)"
      and "started \<le> clock w1 (ticks w1)"
  shows "\<exists>r a self' w'.
           execute_task L h task self w = (Inr (), self', w')
         \<and> trace w' = trace w1 @ Call_publish_result r
                         # (if priority task = CRITICAL then [Call_publish_alert a] else [])
         \<and> status r = FAILED \<and> r_task_id r = task_id task
         \<and> severity a = ALERT_CRITICAL \<and> related_task_id a = Some (task_id task)"
proof -
  from execute_task_except_ok [OF assms(3), of L msg task self]
  obtain a w' where
    e: "execute_task_except L msg started task self w1 =
          (Inr (), self\<lparr>tasks_failed := tasks_failed self + 1\<rparr>, w')"
       "trace w' = trace w1 @
                Call_publish_result
                  \<lparr> r_task_id = task_id task, r_agent_id = self_agent_id self, status = FAILED,
                    result_data = None, metrics = [], artifacts = [],
                    duration_seconds = clock w1 (ticks w1) - started,
                    completed_at = clock w1 (Suc (ticks w1)), error_message = Some msg \<rparr>
                # (if priority task = CRITICAL then [Call_publish_alert a] else [])"
       "severity a = ALERT_CRITICAL" "related_task_id a = Some (task_id task)"
    by blast
  show ?thesis
    unfolding execute_task_failure [OF assms(1,2)]
    using e by (intro exI conjI) (assumption | simp)+
qed


theorem failed_task_result_then_alert_witness:
  "\<exists>r a self' w'.
     execute_task example_lib (example_handler (Inr ()) (Inl (Exception ''boom'')))
        (example_task DATA_QUALITY CRITICAL) (BaseAgent_init DATA_QUALITY)
        (example_world (Some (example_redis [] [])) rising_clock []) = (Inr (), self', w')
     \<and> trace w' = [Invoke_handle_task (example_task DATA_QUALITY CRITICAL), Call_publish_result r,
                    Call_publish_alert a]
     \<and> status r = FAILED \<and> r_task_id r = ''T1''
     \<and> severity a = ALERT_CRITICAL \<and> related_task_id a = Some ''T1''"
proof -
  let ?t = "example_task DATA_QUALITY CRITICAL"
  let ?s = "BaseAgent_init DATA_QUALITY"
  let ?w = "example_world (Some (example_redis [] [])) rising_clock []"
  let ?h = "example_handler (Inr ()) (Inl (Exception ''boom''))"
  let ?wb = "snd (execute_task_begin ?t ?s ?w)"
  have b: "execute_task_begin ?t ?s ?w = (0, ?wb)"
    by (simp add: model_defs example_defs)
  have r: "handle_task ?h ?t ?wb = (Inl (Exception ''boom''), ?wb)"
    by (simp add: example_handler_def)
  have c: "0 \<le> clock ?wb (ticks ?wb)"
    by (simp add: model_defs example_defs)
  from failed_task_result_then_alert [OF b r c, of example_lib] show ?thesis
    by (simp add: model_defs example_defs)
qed


text \<open>
  C1. A task of priority CRITICAL whose handler raises an \<open>Exception\<close>, executed while
  the wall clock steps backwards (the two readings of \<open>datetime.now()\<close> are 10 s before
  the handler ran and 9 s after it failed): the measured duration is negative, the
  constructor of the FAILED result raises a validation error inside the \<open>except\<close>
  clause, and the error leaves \<open>_execute_task\<close> before \<open>publish_result\<close> and
  \<open>publish_alert\<close> are reached. The handler was invoked and nothing else was done:
  neither a result nor an alert is published for the failed task, the server is
  untouched, and the task is counted as failed.
\<close>

theorem failed_task_clock_stepped_back:
  "fst (execute_task example_lib (example_handler (Inr ()) (Inl (Exception ''boom'')))
        (example_task DATA_QUALITY CRITICAL) (BaseAgent_init DATA_QUALITY)
        (example_world (Some (example_redis [] [])) falling_clock []))
     = Inl (Exception ''1 validation error for AgentResult: duration_seconds: Input should be greater than or equal to 0'')
   \<and> trace (snd (snd (execute_task example_lib (example_handler (Inr ()) (Inl (Exception ''boom'')))
        (example_task DATA_QUALITY CRITICAL) (BaseAgent_init DATA_QUALITY)
        (example_world (Some (example_redis [] [])) falling_clock []))))
     = [Invoke_handle_task (example_task DATA_QUALITY CRITICAL)]
   \<and> redis_client (snd (snd (execute_task example_lib (example_handler (Inr ()) (Inl (Exception ''boom'')))
        (example_task DATA_QUALITY CRITICAL) (BaseAgent_init DATA_QUALITY)
        (example_world (Some (example_redis [] [])) falling_clock []))))
     = Some (example_redis [] [])
   \<and> tasks_failed (fst (snd (execute_task example_lib (example_handler (Inr ()) (Inl (Exception ''boom'')))
        (example_task DATA_QUALITY CRITICAL) (BaseAgent_init DATA_QUALITY)
        (example_world (Some (example_redis [] [])) falling_clock []))))
     = 1"
  by (simp add: model_defs example_defs)

text \<open>
  On handler success the runtime publishes the handler's result with \<open>duration_seconds\<close>
  replaced by the difference of the two clock readings and every other field as the
  handler returned it, whatever these fields hold. The difference is at least 0 when
  the clock did not step backwards between the readings.
\<close>

theorem success_overwrites_duration_only:
  assumes "execute_task_begin task self w = (started, w0)"
      and "handle_task h task w0 = (Inr result, w1)"
  shows "\<exists>r self' w'.
           execute_task L h task self w = (Inr (), self', w')
         \<and> trace w' = trace w1 @ [Call_publish_result r]
         \<and> r = result\<lparr>duration_seconds := clock w1 (ticks w1) - started\<rparr>
         \<and> (started \<le> clock w1 (ticks w1) \<longrightarrow> 0 \<le> duration_seconds r)
         \<and> r_task_id r = r_task_id result \<and> r_agent_id r = r_agent_id result
         \<and> status r = status result \<and> result_data r = result_data result
         \<and> metrics r = metrics result \<and> artifacts r = artifacts result
         \<and> completed_at r = completed_at result \<and> error_message r = error_message result"
proof -
  from execute_task_success [OF assms, of L] obtain b w3 where
    e: "trace w3 = trace w1 @ [Call_publish_result (result\<lparr>duration_seconds := clock w1 (ticks w1) - started\<rparr>)]"
       "execute_task L h task self w =
               (Inr (), self\<lparr>tasks_completed := tasks_completed self + 1\<rparr>,
                agent_logger self LOG_INFO
                  (''Task '' @ task_id task @ '' completed successfully in ''
                     @ format_2f L (clock w1 (ticks w1) - started) @ ''s'') w3)"
    by blast
  show ?thesis
    unfolding e(2) using e(1)
    by (intro exI [of _ "result\<lparr>duration_seconds := clock w1 (ticks w1) - started\<rparr>"] exI conjI)
       (rule refl | simp)+
qed


theorem success_overwrites_duration_only_witness:
  "\<exists>r self' w'.
     execute_task example_lib (example_handler (Inr ()) (Inr (example_result COMPLETED None)))
        (example_task DATA_QUALITY HIGH) (BaseAgent_init DATA_QUALITY)
        (example_world (Some (example_redis [] [])) rising_clock []) = (Inr (), self', w')
     \<and> trace w' = [Invoke_handle_task (example_task DATA_QUALITY HIGH), Call_publish_result r]
     \<and> r = (example_result COMPLETED None)\<lparr>duration_seconds := 1\<rparr>
     \<and> 0 \<le> duration_seconds r"
proof -
  let ?t = "example_task DATA_QUALITY HIGH"
  let ?s = "BaseAgent_init DATA_QUALITY"
  let ?w = "example_world (Some (example_redis [] [])) rising_clock []"
  let ?h = "example_handler (Inr ()) (Inr (example_result COMPLETED None))"
  let ?wb = "snd (execute_task_begin ?t ?s ?w)"
  have b: "execute_task_begin ?t ?s ?w = (0, ?wb)"
    by (simp add: model_defs example_defs)
  have r: "handle_task ?h ?t ?wb = (Inr (example_result COMPLETED None), ?wb)"
    by (simp add: example_handler_def)
  from success_overwrites_duration_only [OF b r, of example_lib] show ?thesis
    by (simp add: model_defs example_defs)
qed


text \<open>
  C10. A task whose handler returns a result, executed while the wall clock steps
  backwards (the two readings of \<open>datetime.now()\<close> are 10 s before the handler ran and
  9 s after it returned): the runtime publishes the handler's result with
  \<open>duration_seconds = -1\<close>. The elapsed time it measured is negative, the value breaks
  the constraint \<open>ge=0\<close> the schema declares for the field (the constructor refuses
  it), and \<open>get_result\<close> for the task right after gives \<open>None\<close>, because the stored
  text does not load.
\<close>

theorem success_negative_duration:
  "trace (snd (snd (execute_task example_lib (example_handler (Inr ()) (Inr (example_result COMPLETED None)))
        (example_task DATA_QUALITY HIGH) (BaseAgent_init DATA_QUALITY)
        (example_world (Some (example_redis [] [])) falling_clock []))))
     = [Invoke_handle_task (example_task DATA_QUALITY HIGH),
        Call_publish_result ((example_result COMPLETED None)\<lparr>duration_seconds := - 1\<rparr>)]
   \<and> fst (get_result example_lib ''T1''
        (snd (snd (execute_task example_lib (example_handler (Inr ()) (Inr (example_result COMPLETED None)))
          (example_task DATA_QUALITY HIGH) (BaseAgent_init DATA_QUALITY)
          (example_world (Some (example_redis [] [])) falling_clock [])))))
     = Inr None
   \<and> (\<exists>m. AgentResult_init ''T1'' DATA_QUALITY COMPLETED None (- 1) 0 = Inl m)"
  by (simp add: model_defs example_defs)

text \<open>
  C4 (as amended). On handler failure (and a clock that did not step backwards) the
  published result has status FAILED and its \<open>error_message\<close> is \<open>Some (str e)\<close>: set, and
  empty when the exception has no text. On handler success the published \<open>status\<close> and
  \<open>error_message\<close> are those of the handler's result: the runtime neither sets nor clears
  nor checks them.
\<close>

theorem error_message_of_published_result:
  assumes "execute_task_begin task self w = (started, w0)"
  shows "(\<forall>msg w1. handle_task h task w0 = (Inl (Exception msg), w1) \<and> started \<le> clock w1 (ticks w1) \<longrightarrow>
            (\<exists>r rest res self' w'.
                execute_task L h task self w = (res, self', w')
              \<and> trace w' = trace w1 @ Call_publish_result r # rest
              \<and> status r = FAILED \<and> error_message r = Some msg))
       \<and> (\<forall>result w1. handle_task h task w0 = (Inr result, w1) \<longrightarrow>
            (\<exists>r res self' w'.
                execute_task L h task self w = (res, self', w')
              \<and> trace w' = trace w1 @ [Call_publish_result r]
              \<and> status r = status result \<and> error_message r = error_message result))"
proof (intro conjI allI impI)
  fix msg w1
  assume a: "handle_task h task w0 = (Inl (Exception msg), w1) \<and> started \<le> clock w1 (ticks w1)"
  then have h: "handle_task h task w0 = (Inl (Exception msg), w1)" and c: "started \<le> clock w1 (ticks w1)"
    by simp_all
  from execute_task_except_ok [OF c, of L msg task self]
  obtain a w' where
    e: "execute_task_except L msg started task self w1 =
          (Inr (), self\<lparr>tasks_failed := tasks_failed self + 1\<rparr>, w')"
       "trace w' = trace w1 @
                Call_publish_result
                  \<lparr> r_task_id = task_id task, r_agent_id = self_agent_id self, status = FAILED,
                    result_data = None, metrics = [], artifacts = [],
                    duration_seconds = clock w1 (ticks w1) - started,
                    completed_at = clock w1 (Suc (ticks w1)), error_message = Some msg \<rparr>
                # (if priority task = CRITICAL then [Call_publish_alert a] else [])"
    by blast
  show "\<exists>r rest res self' w'.
                execute_task L h task self w = (res, self', w')
              \<and> trace w' = trace w1 @ Call_publish_result r # rest
              \<and> status r = FAILED \<and> error_message r = Some msg"
    unfolding execute_task_failure [OF assms h]
    using e by (intro exI conjI) (assumption | simp)+
next
  fix result w1
  assume h: "handle_task h task w0 = (Inr result, w1)"
  from execute_task_success [OF assms h, of L] obtain b w3 where
    e: "trace w3 = trace w1 @ [Call_publish_result (result\<lparr>duration_seconds := clock w1 (ticks w1) - started\<rparr>)]"
       "execute_task L h task self w =
               (Inr (), self\<lparr>tasks_completed := tasks_completed self + 1\<rparr>,
                agent_logger self LOG_INFO
                  (''Task '' @ task_id task @ '' completed successfully in ''
                     @ format_2f L (clock w1 (ticks w1) - started) @ ''s'') w3)"
    by blast
  show "\<exists>r res self' w'.
                execute_task L h task self w = (res, self', w')
              \<and> trace w' = trace w1 @ [Call_publish_result r]
              \<and> status r = status result \<and> error_message r = error_message result"
    unfolding e(2) using e(1)
    by (intro exI [of _ "result\<lparr>duration_seconds := clock w1 (ticks w1) - started\<rparr>"] exI conjI)
       (rule refl | simp)+
qed


theorem error_message_of_published_result_witness:
  "(\<exists>r rest res self' w'.
      execute_task example_lib (example_handler (Inr ()) (Inl (Exception ''boom'')))
         (example_task DATA_QUALITY HIGH) (BaseAgent_init DATA_QUALITY)
         (example_world (Some (example_redis [] [])) rising_clock []) = (res, self', w')
    \<and> trace w' = Invoke_handle_task (example_task DATA_QUALITY HIGH) # Call_publish_result r # rest
    \<and> status r = FAILED \<and> error_message r = Some ''boom'')
   \<and> (\<exists>r res self' w'.
      execute_task example_lib (example_handler (Inr ()) (Inr (example_result COMPLETED None)))
         (example_task DATA_QUALITY HIGH) (BaseAgent_init DATA_QUALITY)
         (example_world (Some (example_redis [] [])) rising_clock []) = (res, self', w')
    \<and> trace w' = [Invoke_handle_task (example_task DATA_QUALITY HIGH), Call_publish_result r]
    \<and> status r = COMPLETED \<and> error_message r = None)"
proof -
  let ?t = "example_task DATA_QUALITY HIGH"
  let ?s = "BaseAgent_init DATA_QUALITY"
  let ?w = "example_world (Some (example_redis [] [])) rising_clock []"
  let ?hf = "example_handler (Inr ()) (Inl (Exception ''boom''))"
  let ?hs = "example_handler (Inr ()) (Inr (example_result COMPLETED None))"
  let ?wb = "snd (execute_task_begin ?t ?s ?w)"
  have b: "execute_task_begin ?t ?s ?w = (0, ?wb)"
    by (simp add: model_defs example_defs)
  have f: "handle_task ?hf ?t ?wb = (Inl (Exception ''boom''), ?wb) \<and> 0 \<le> clock ?wb (ticks ?wb)"
    by (simp add: model_defs example_defs)
  have s: "handle_task ?hs ?t ?wb = (Inr (example_result COMPLETED None), ?wb)"
    by (simp add: example_handler_def)
  from error_message_of_published_result [OF b, of ?hf example_lib] f
  have 1: "\<exists>r rest res self' w'.
      execute_task example_lib ?hf ?t ?s ?w = (res, self', w')
    \<and> trace w' = trace ?wb @ Call_publish_result r # rest
    \<and> status r = FAILED \<and> error_message r = Some ''boom''"
    by blast
  from error_message_of_published_result [OF b, of ?hs example_lib] s
  have 2: "\<exists>r res self' w'.
      execute_task example_lib ?hs ?t ?s ?w = (res, self', w')
    \<and> trace w' = trace ?wb @ [Call_publish_result r]
    \<and> status r = status (example_result COMPLETED None)
    \<and> error_message r = error_message (example_result COMPLETED None)"
    by blast
  have tr: "trace ?wb = [Invoke_handle_task ?t]"
    by (simp add: model_defs example_defs)
  from 1 2 show ?thesis
    unfolding tr by (simp add: example_result_def)
qed

text \<open>
  The claim as stated fails both ways: an exception without text (\<open>raise ValueError()\<close>)
  gives a FAILED result whose error message is the empty string, and a handler that
  returns a COMPLETED result carrying an error message has it published unchanged.
\<close>

theorem error_message_empty_or_kept:
  "trace (snd (snd (execute_task example_lib (example_handler (Inr ()) (Inl (Exception [])))
        (example_task DATA_QUALITY HIGH) (BaseAgent_init DATA_QUALITY)
        (example_world (Some (example_redis [] [])) rising_clock []))))
     = [Invoke_handle_task (example_task DATA_QUALITY HIGH),
        Call_publish_result
          \<lparr> r_task_id = ''T1'', r_agent_id = DATA_QUALITY, status = FAILED, result_data = None,
            metrics = [], artifacts = [], duration_seconds = 1, completed_at = 2,
            error_message = Some [] \<rparr>]
   \<and> trace (snd (snd (execute_task example_lib
        (example_handler (Inr ()) (Inr (example_result COMPLETED (Some ''three rows skipped''))))
        (example_task DATA_QUALITY HIGH) (BaseAgent_init DATA_QUALITY)
        (example_world (Some (example_redis [] [])) rising_clock []))))
     = [Invoke_handle_task (example_task DATA_QUALITY HIGH),
        Call_publish_result
          \<lparr> r_task_id = ''T1'', r_agent_id = DATA_QUALITY, status = COMPLETED, result_data = None,
            metrics = [], artifacts = [], duration_seconds = 1, completed_at = 0,
            error_message = Some ''three rows skipped'' \<rparr>]"
  by (simp add: model_defs example_defs)

text \<open>
  C2 (as amended). When \<open>initialize\<close> raises, \<open>start\<close> raises the same exception to its
  caller and returns with the world as \<open>initialize\<close> left it: the main loop is never
  entered. The running flag has been set and the heartbeat task created before
  \<open>initialize\<close> was awaited, and \<open>start\<close> leaves both so.
\<close>

theorem start_initialize_failure:
  assumes "start_begin self w = (self1, w1)"
      and "initialize h w1 = (Inl e, w2)"
  shows "start L h n self w = (Some (Inl e), self1, w2)
       \<and> is_running self1 \<and> heartbeat_task self1 = Some Scheduled
       \<and> trace w1 = trace w @ [Invoke_initialize]"
  using assms by (auto simp: start_def start_begin_def now_def did_def agent_logger_def logger_def)

theorem start_initialize_failure_witness:
  "start example_lib (example_handler (Inl (Exception ''model file missing'')) (Inr (example_result COMPLETED None)))
      3 (BaseAgent_init DATA_QUALITY) (example_world (Some (example_redis [] [])) rising_clock [])
   = (Some (Inl (Exception ''model file missing'')),
      \<lparr> self_agent_id = DATA_QUALITY, is_running = True, start_time = Some 0, tasks_completed = 0,
        tasks_failed = 0, heartbeat_task = Some Scheduled \<rparr>,
      \<lparr> redis_client = Some (example_redis [] []), settings = default_settings, clock = rising_clock,
        ticks = 1, uuid4s = no_uuid, uuids_drawn = 0, interrupts = [],
        log_records = [(''data_quality'', LOG_INFO, ''Starting agent: data_quality'')],
        trace = [Invoke_initialize] \<rparr>)"
proof -
  let ?s = "BaseAgent_init DATA_QUALITY"
  let ?w = "example_world (Some (example_redis [] [])) rising_clock []"
  let ?h = "example_handler (Inl (Exception ''model file missing'')) (Inr (example_result COMPLETED None))"
  let ?sb = "fst (start_begin ?s ?w)"
  let ?wb = "snd (start_begin ?s ?w)"
  have b: "start_begin ?s ?w = (?sb, ?wb)" by simp
  have i: "initialize ?h ?wb = (Inl (Exception ''model file missing''), ?wb)"
    by (simp add: example_handler_def)
  from start_initialize_failure [OF b i, of example_lib 3] show ?thesis
    by (simp add: start_begin_def now_def did_def agent_logger_def logger_def
        example_world_def BaseAgent_init_def rising_clock_def)
qed

text \<open>
  The claim as stated fails: after the failed \<open>start\<close> the running flag is set and the
  heartbeat task is scheduled, not cancelled.
\<close>

theorem start_failure_leaves_running:
  "is_running (fst (snd (start example_lib
      (example_handler (Inl (Exception ''model file missing'')) (Inr (example_result COMPLETED None)))
      3 (BaseAgent_init DATA_QUALITY) (example_world (Some (example_redis [] [])) rising_clock []))))
   \<and> heartbeat_task (fst (snd (start example_lib
      (example_handler (Inl (Exception ''model file missing'')) (Inr (example_result COMPLETED None)))
      3 (BaseAgent_init DATA_QUALITY) (example_world (Some (example_redis [] [])) rising_clock []))))
     = Some Scheduled"
  by (simp add: start_def start_begin_def now_def did_def agent_logger_def logger_def
      example_world_def BaseAgent_init_def example_handler_def)

lemma asyncio_sleep_frame:
  assumes "asyncio_sleep d w = (res, w')"
  shows "trace w' = trace w @ [Sleep d] \<and> redis_client w' = redis_client w
       \<and> log_records w' = log_records w \<and> settings w' = settings w \<and> clock w' = clock w
       \<and> ticks w' = ticks w"
  using assms by (auto simp: asyncio_sleep_def did_def split: list.splits)

text \<open>
  C3. A loop iteration that pops a task addressed to another agent: the agent object is
  unchanged (so are both counters), the only thing the runtime does after the pop is
  the pause of 0.1 s (the handler is not invoked and nothing is published), and the
  broker is as the pop left it (the task is not pushed back).
\<close>

theorem mismatched_task_discarded:
  assumes "consume_task L 5 w = (Inr (Some task), w1)"
      and "agent_id task \<noteq> self_agent_id self"
  shows "\<exists>res w2. run_iteration L h self w = (res, self, w2)
          \<and> trace w2 = trace w1 @ [Sleep (1 / 10)]
          \<and> redis_client w2 = redis_client w1
          \<and> log_records w2 = log_records w1"
proof -
  obtain res w2 where s: "asyncio_sleep (1 / 10) w1 = (res, w2)" by (cases "asyncio_sleep (1 / 10) w1")
  have ne: "\<And>m. res \<noteq> Inl (Exception m)"
    using s by (auto simp: asyncio_sleep_def split: list.splits if_splits)
  have "run_iteration L h self w = (res, self, w2)"
    using assms s ne
    by (cases res) (auto simp: run_iteration_def run_iteration_try_def split: exn.splits)
  with asyncio_sleep_frame [OF s] show ?thesis by simp
qed

theorem mismatched_task_discarded_witness:
  "\<exists>res w2.
     run_iteration example_lib (example_handler (Inr ()) (Inr (example_result COMPLETED None)))
       (BaseAgent_init DATA_QUALITY)
       (example_world (Some (example_redis [(''diamond_mind:tasks'', RList [''task T1 model_monitor''])] []))
          rising_clock [])
       = (res, BaseAgent_init DATA_QUALITY, w2)
     \<and> trace w2 = [Call_consume_task 5, Sleep (1 / 10)]
     \<and> redis_client w2 = Some (example_redis [] [])
     \<and> log_records w2 = []"
proof -
  let ?w = "example_world (Some (example_redis [(''diamond_mind:tasks'', RList [''task T1 model_monitor''])] []))
          rising_clock []"
  let ?wa = "snd (consume_task example_lib 5 ?w)"
  have c: "consume_task example_lib 5 ?w = (Inr (Some (example_task MODEL_MONITOR HIGH)), ?wa)"
    by (simp add: model_defs example_defs)
  have d: "agent_id (example_task MODEL_MONITOR HIGH) \<noteq> self_agent_id (BaseAgent_init DATA_QUALITY)"
    by (simp add: example_defs)
  have e: "trace ?wa = [Call_consume_task 5] \<and> redis_client ?wa = Some (example_redis [] [])
           \<and> log_records ?wa = []"
    by (simp add: model_defs example_defs)
  from mismatched_task_discarded [OF c d, of "example_handler (Inr ()) (Inr (example_result COMPLETED None))"] e
  show ?thesis by simp
qed

lemma executed_append [simp]: "executed (xs @ ys) = executed xs + executed ys"
  by (simp add: executed_def)

lemma executed_simps [simp]:
  "executed [] = 0"
  "executed (Invoke_handle_task t # xs) = Suc (executed xs)"
  "executed (Call_publish_result r # xs) = executed xs"
  "executed (Call_publish_alert a # xs) = executed xs"
  "executed (Call_consume_task n # xs) = executed xs"
  "executed (Sleep d # xs) = executed xs"
  by (simp_all add: executed_def)








section \<open>Properties of the broker operations\<close>

lemma redis_fault:
  assumes "faults r = Some m # fs"
  shows "redis_lpush k v r = (Inl (Exception m), r\<lparr>faults := fs\<rparr>)"
        "redis_brpop k t r = (Inl (Exception m), r\<lparr>faults := fs\<rparr>)"
        "redis_hset k kvs r = (Inl (Exception m), r\<lparr>faults := fs\<rparr>)"
        "redis_hget k f r = (Inl (Exception m), r\<lparr>faults := fs\<rparr>)"
  using assms
  by (simp_all add: redis_lpush_def redis_brpop_def redis_hset_def redis_hget_def next_fault_def)




lemma redis_brpop_ok:
  assumes "fst (next_fault r) = None" and "keyspace r k = Some (RList xs)" and "xs \<noteq> []"
  shows "redis_brpop k t r =
           (Inr (Some (k, last xs)),
            r\<lparr>faults := tl (faults r),
              keyspace := (if butlast xs = [] then (keyspace r)(k := None)
                           else (keyspace r)(k \<mapsto> RList (butlast xs)))\<rparr>)"
  using assms
  by (cases "faults r") (auto simp: redis_brpop_def next_fault_def)

text \<open>
  C9. \<open>consume_task\<close> never raises, whatever the queue holds. When the entry it pops
  cannot be loaded as a task (it is not JSON, or fails the schema), it logs the error
  and returns \<open>None\<close>, and the entry is gone from the queue: the queue is the old one
  without its last entry, and no other key of the server has changed.
\<close>

theorem malformed_entry_consumed:
  assumes "redis_client w = Some r"
      and "fst (next_fault r) = None"
      and "keyspace r (task_queue_name (settings w)) = Some (RList xs)"
      and "xs \<noteq> []"
      and "load_task L (last xs) = Inl m"
  shows "\<exists>w' r'. consume_task L timeout w = (Inr None, w')
           \<and> redis_client w' = Some r'
           \<and> queue r' (task_queue_name (settings w)) = butlast xs
           \<and> (\<forall>k. k \<noteq> task_queue_name (settings w) \<longrightarrow> keyspace r' k = keyspace r k)
           \<and> log_records w' = log_records w @ [(''messaging'', LOG_ERROR, ''Failed to consume task: '' @ m)]
           \<and> (\<forall>L' t' w''. \<exists>v w3. consume_task L' t' w'' = (Inr v, w3))"
proof -
  have t: "\<forall>L' t' w''. \<exists>v w3. consume_task L' t' w'' = (Inr v, w3)"
    using consume_task_returns by blast
  show ?thesis
    using assms t redis_brpop_ok [OF assms(2,3,4), of timeout]
    by (auto simp: consume_task_def consume_task_try_def with_client_def did_def logger_def queue_def)
qed

theorem malformed_entry_consumed_witness:
  "\<exists>w' r'. consume_task example_lib 5
       (example_world (Some (example_redis [(''diamond_mind:tasks'', RList [''task T1 data_quality'', ''{not json''])] []))
          rising_clock []) = (Inr None, w')
     \<and> redis_client w' = Some r'
     \<and> queue r' ''diamond_mind:tasks'' = [''task T1 data_quality'']
     \<and> log_records w' = [(''messaging'', LOG_ERROR,
           ''Failed to consume task: Expecting value: line 1 column 1 (char 0)'')]"
proof -
  let ?r = "example_redis [(''diamond_mind:tasks'', RList [''task T1 data_quality'', ''{not json''])] []"
  let ?w = "example_world (Some ?r) rising_clock []"
  have 1: "redis_client ?w = Some ?r" by (simp add: example_world_def)
  have 2: "fst (next_fault ?r) = None" by (simp add: next_fault_def example_redis_def)
  have 3: "keyspace ?r (task_queue_name (settings ?w)) = Some (RList [''task T1 data_quality'', ''{not json''])"
    by (simp add: example_defs)
  have 4: "[''task T1 data_quality'', ''{not json''] \<noteq> []" by simp
  have 5: "load_task example_lib (last [''task T1 data_quality'', ''{not json''])
             = Inl ''Expecting value: line 1 column 1 (char 0)''"
    by (simp add: example_lib_def)
  have 6: "task_queue_name (settings ?w) = ''diamond_mind:tasks''" "log_records ?w = []"
    by (simp_all add: example_defs)
  from malformed_entry_consumed [OF 1 2 3 4 5, of 5] show ?thesis
    unfolding 6 by auto
qed

lemma consume_task_fault:
  assumes "redis_client w = Some rd" and "faults rd = Some m # fs"
  shows "consume_task L t w =
           (Inr None, logger ''messaging'' LOG_ERROR (''Failed to consume task: '' @ m)
                        (did (Call_consume_task t) (w\<lparr>redis_client := Some (rd\<lparr>faults := fs\<rparr>)\<rparr>)))"
  using assms redis_fault(2) [OF assms(2)]
  by (simp add: consume_task_def consume_task_try_def with_client_def did_def logger_def)

lemma publish_result_fault_first:
  assumes "redis_client w = Some rd" and "faults rd = Some m # fs" and "dump_result L res = Inr j"
  shows "publish_result L res w =
           (Inr False, logger ''messaging'' LOG_ERROR (''Failed to publish result: '' @ m)
                        (did (Call_publish_result res) (w\<lparr>redis_client := Some (rd\<lparr>faults := fs\<rparr>)\<rparr>)))"
  using assms redis_fault(1) [OF assms(2)]
  by (simp add: publish_result_def publish_result_try_def with_client_def did_def logger_def)

lemma publish_result_fault_second:
  assumes "redis_client w = Some rd" and "faults rd = None # Some m # fs"
      and "dump_result L res = Inr j"
      and "\<forall>h. keyspace rd (result_queue_name (settings w)) \<noteq> Some (RHash h)"
  shows "\<exists>w' rd'. publish_result L res w = (Inr False, w') \<and> redis_client w' = Some rd'
           \<and> queue rd' (result_queue_name (settings w)) = j # queue rd (result_queue_name (settings w))
           \<and> stored rd' (''results:'' @ r_task_id res) ''data''
               = stored rd (''results:'' @ r_task_id res) ''data''
           \<and> faults rd' = fs"
proof (cases "keyspace rd (result_queue_name (settings w))")
  case None
  with assms show ?thesis
    by (auto simp: publish_result_def publish_result_try_def with_client_def did_def logger_def
        redis_lpush_def redis_hset_def next_fault_def now_def queue_def stored_def)
next
  case (Some v)
  with assms obtain xs where v: "v = RList xs" by (cases v) auto
  with Some assms show ?thesis
    by (auto simp: publish_result_def publish_result_try_def with_client_def did_def logger_def
        redis_lpush_def redis_hset_def next_fault_def now_def queue_def stored_def)
qed

text \<open>
  C5 (as amended). Neither \<open>consume_task\<close> nor \<open>publish_result\<close> ever raises. When the
  connection raises on the command \<open>consume_task\<close> sends, it returns \<open>None\<close>, as it does
  when there is no task, and the server is untouched. When the connection raises on
  the first command \<open>publish_result\<close> sends (the queue append), it returns \<open>False\<close> and
  nothing is delivered; when it raises on the second (the store update), it returns
  \<open>False\<close> too, the result is already on the result queue and only the store misses
  it. In each case exactly the commands up to the failing one are sent: nothing is
  retried.
\<close>

theorem broker_fault_soft_failure:
  "(\<exists>v w'. consume_task L t w = (Inr v, w')) \<and> (\<exists>b w'. publish_result L res w = (Inr b, w'))
   \<and> (\<forall>rd m fs. redis_client w = Some rd \<and> faults rd = Some m # fs \<longrightarrow>
          fst (consume_task L t w) = Inr None
        \<and> redis_client (snd (consume_task L t w)) = Some (rd\<lparr>faults := fs\<rparr>))
   \<and> (\<forall>rd. redis_client w = Some rd \<and> fst (next_fault rd) = None
             \<and> keyspace rd (task_queue_name (settings w)) = None \<longrightarrow>
          fst (consume_task L t w) = Inr None)
   \<and> (\<forall>rd m fs j. redis_client w = Some rd \<and> faults rd = Some m # fs \<and> dump_result L res = Inr j \<longrightarrow>
          fst (publish_result L res w) = Inr False
        \<and> redis_client (snd (publish_result L res w)) = Some (rd\<lparr>faults := fs\<rparr>))
   \<and> (\<forall>rd m fs j. redis_client w = Some rd \<and> faults rd = None # Some m # fs
             \<and> dump_result L res = Inr j
             \<and> (\<forall>h. keyspace rd (result_queue_name (settings w)) \<noteq> Some (RHash h)) \<longrightarrow>
          (\<exists>w' rd'. publish_result L res w = (Inr False, w') \<and> redis_client w' = Some rd'
             \<and> queue rd' (result_queue_name (settings w)) = j # queue rd (result_queue_name (settings w))
             \<and> stored rd' (''results:'' @ r_task_id res) ''data''
                 = stored rd (''results:'' @ r_task_id res) ''data''
             \<and> faults rd' = fs))"
proof (intro conjI allI impI)
  show "\<exists>v w'. consume_task L t w = (Inr v, w')" using consume_task_returns by blast
  show "\<exists>b w'. publish_result L res w = (Inr b, w')" using publish_result_returns by blast
next
  fix rd m fs
  assume a: "redis_client w = Some rd \<and> faults rd = Some m # fs"
  then show "fst (consume_task L t w) = Inr None"
    using consume_task_fault [of w rd m fs L t] by simp
  from a show "redis_client (snd (consume_task L t w)) = Some (rd\<lparr>faults := fs\<rparr>)"
    using consume_task_fault [of w rd m fs L t] by (simp add: logger_def did_def)
next
  fix rd
  assume "redis_client w = Some rd \<and> fst (next_fault rd) = None
             \<and> keyspace rd (task_queue_name (settings w)) = None"
  then show "fst (consume_task L t w) = Inr None"
    by (cases "faults rd")
       (auto simp: consume_task_def consume_task_try_def with_client_def did_def redis_brpop_def
          next_fault_def)
next
  fix rd m fs j
  assume a: "redis_client w = Some rd \<and> faults rd = Some m # fs \<and> dump_result L res = Inr j"
  then show "fst (publish_result L res w) = Inr False"
    using publish_result_fault_first [of w rd m fs L res j] by simp
  from a show "redis_client (snd (publish_result L res w)) = Some (rd\<lparr>faults := fs\<rparr>)"
    using publish_result_fault_first [of w rd m fs L res j] by (simp add: logger_def did_def)
next
  fix rd m fs j
  assume "redis_client w = Some rd \<and> faults rd = None # Some m # fs
             \<and> dump_result L res = Inr j
             \<and> (\<forall>h. keyspace rd (result_queue_name (settings w)) \<noteq> Some (RHash h))"
  then show "\<exists>w' rd'. publish_result L res w = (Inr False, w') \<and> redis_client w' = Some rd'
             \<and> queue rd' (result_queue_name (settings w)) = j # queue rd (result_queue_name (settings w))
             \<and> stored rd' (''results:'' @ r_task_id res) ''data''
                 = stored rd (''results:'' @ r_task_id res) ''data''
             \<and> faults rd' = fs"
    using publish_result_fault_second [of w rd m fs L res j] by blast
qed

theorem broker_fault_soft_failure_witness:
  "fst (consume_task example_lib 5 example_down_world) = Inr None
   \<and> redis_client (snd (consume_task example_lib 5 example_down_world))
       = Some (example_redis [(''diamond_mind:tasks'', RList [''task T1 data_quality''])] [])
   \<and> fst (publish_result example_lib (example_result COMPLETED None) example_down_world) = Inr False
   \<and> redis_client (snd (publish_result example_lib (example_result COMPLETED None) example_down_world))
       = Some (example_redis [(''diamond_mind:tasks'', RList [''task T1 data_quality''])] [])
   \<and> (\<exists>w' rd'. publish_result example_lib (example_result COMPLETED None) example_half_down_world
                   = (Inr False, w')
         \<and> redis_client w' = Some rd'
         \<and> queue rd' ''diamond_mind:results'' = [''result T1 ok'']
         \<and> stored rd' ''results:T1'' ''data'' = None)"
proof -
  let ?rd = "example_redis [(''diamond_mind:tasks'', RList [''task T1 data_quality''])]
                [Some ''Connection refused'']"
  let ?rh = "example_redis [] [None, Some ''Connection reset by peer'']"
  let ?res = "example_result COMPLETED None"
  have d: "redis_client example_down_world = Some ?rd \<and> faults ?rd = Some ''Connection refused'' # []
           \<and> dump_result example_lib ?res = Inr ''result T1 ok''"
    by (simp add: example_down_world_def example_defs)
  have h: "redis_client example_half_down_world = Some ?rh
           \<and> faults ?rh = None # Some ''Connection reset by peer'' # []
           \<and> dump_result example_lib ?res = Inr ''result T1 ok''
           \<and> (\<forall>h. keyspace ?rh (result_queue_name (settings example_half_down_world)) \<noteq> Some (RHash h))"
    by (simp add: example_half_down_world_def example_defs)
  have e: "?rd\<lparr>faults := []\<rparr> = example_redis [(''diamond_mind:tasks'', RList [''task T1 data_quality''])] []"
    "queue ?rh ''diamond_mind:results'' = []" "stored ?rh ''results:T1'' ''data'' = None"
    "result_queue_name (settings example_half_down_world) = ''diamond_mind:results''"
    "r_task_id ?res = ''T1''"
    by (simp_all add: example_half_down_world_def example_defs queue_def stored_def)
  from broker_fault_soft_failure [of example_lib 5 example_down_world ?res] d
  have 1: "fst (consume_task example_lib 5 example_down_world) = Inr None
        \<and> redis_client (snd (consume_task example_lib 5 example_down_world)) = Some (?rd\<lparr>faults := []\<rparr>)
        \<and> fst (publish_result example_lib ?res example_down_world) = Inr False
        \<and> redis_client (snd (publish_result example_lib ?res example_down_world)) = Some (?rd\<lparr>faults := []\<rparr>)"
    by blast
  from broker_fault_soft_failure [of example_lib 5 example_half_down_world ?res] h
  have 2: "\<exists>w' rd'. publish_result example_lib ?res example_half_down_world = (Inr False, w')
             \<and> redis_client w' = Some rd'
             \<and> queue rd' (result_queue_name (settings example_half_down_world))
                 = ''result T1 ok'' # queue ?rh (result_queue_name (settings example_half_down_world))
             \<and> stored rd' (''results:'' @ r_task_id ?res) ''data''
                 = stored ?rh (''results:'' @ r_task_id ?res) ''data''
             \<and> faults rd' = []"
    by blast
  from 1 2 show ?thesis by (auto simp: e)
qed

text \<open>
  The claim as stated fails when the connection drops between the two commands of
  \<open>publish_result\<close>: it returns \<open>False\<close> and the result is on the result queue.
\<close>

theorem failed_push_delivers_to_queue:
  "fst (publish_result example_lib (example_result COMPLETED None)
          (example_world (Some (example_redis [] [None, Some ''Connection reset by peer''])) rising_clock []))
     = Inr False
   \<and> map_option (\<lambda>r. queue r ''diamond_mind:results'')
        (redis_client (snd (publish_result example_lib (example_result COMPLETED None)
          (example_world (Some (example_redis [] [None, Some ''Connection reset by peer''])) rising_clock []))))
     = Some [''result T1 ok'']"
  by (simp add: model_defs example_defs queue_def)






section \<open>Properties of the heartbeat loop\<close>

lemma asyncio_sleep_eq:
  "asyncio_sleep d w =
     (if interrupted w then Inl CancelledError else Inr (),
      did (Sleep d) (w\<lparr>interrupts := tl (interrupts w)\<rparr>))"
  by (cases "interrupts w") (simp_all add: asyncio_sleep_def interrupted_def did_def)

lemma update_agent_heartbeat_frame:
  assumes "update_agent_heartbeat L a w = (res, w')"
  shows "trace w' = trace w @ [Call_update_agent_heartbeat a]
       \<and> settings w' = settings w \<and> log_records w' = log_records w
       \<and> set (interrupts w') \<subseteq> set (interrupts w)
       \<and> (res = Inl CancelledError \<longrightarrow> True \<in> set (interrupts w))"
  using assms
  by (auto simp: update_agent_heartbeat_def cancel_point_def with_client_def redis_hset_def
        next_fault_def now_def did_def Let_def wrongtype_def interrupted_def
      split: option.splits list.splits rval.splits bool.splits if_splits)


lemma heartbeat_iteration_eq:
  assumes "update_agent_heartbeat L (AgentType_value (self_agent_id self)) w = (r1, w1)"
  shows "heartbeat_iteration L self w =
     (case r1 of
        Inr u \<Rightarrow>
          (if interrupted w1 then Break else Continue,
           did (Sleep (real_of_int (heartbeat_interval_seconds (settings w))))
             (w1\<lparr>interrupts := tl (interrupts w1)\<rparr>))
      | Inl CancelledError \<Rightarrow> (Break, w1)
      | Inl (Exception m) \<Rightarrow>
          (if interrupted w1 then Propagate CancelledError else Continue,
           did (Sleep (real_of_int (heartbeat_interval_seconds (settings w))))
             ((agent_logger self LOG_ERROR (''Heartbeat error: '' @ m) w1)
              \<lparr>interrupts := tl (interrupts w1)\<rparr>)))"
proof (cases r1)
  case (Inr u)
  then show ?thesis
    using assms by (simp add: heartbeat_iteration_def Let_def asyncio_sleep_eq)
next
  case (Inl e)
  show ?thesis
  proof (cases e)
    case CancelledError
    with Inl assms show ?thesis by (simp add: heartbeat_iteration_def Let_def)
  next
    case (Exception m)
    have j: "interrupted (agent_logger self LOG_ERROR (''Heartbeat error: '' @ m) w1) = interrupted w1"
      by (simp add: interrupted_def)
    from Inl Exception assms j show ?thesis
      by (simp add: heartbeat_iteration_def Let_def asyncio_sleep_eq)
  qed
qed

lemma tl_subset: "set (tl xs) \<subseteq> set xs"
  by (cases xs) auto

lemma interrupted_mem: "interrupted w \<Longrightarrow> True \<in> set (interrupts w)"
  by (cases "interrupts w") (auto simp: interrupted_def)

lemma heartbeat_iteration_cases:
  assumes "heartbeat_iteration L self w = (st, w')"
  shows "set (interrupts w') \<subseteq> set (interrupts w) \<and> settings w' = settings w
       \<and> (st = Continue \<or> (st = Break \<or> st = Propagate CancelledError) \<and> True \<in> set (interrupts w))
       \<and> (st = Continue \<longrightarrow>
             trace w' = trace w @ [Call_update_agent_heartbeat (AgentType_value (self_agent_id self)),
                                   Sleep (real_of_int (heartbeat_interval_seconds (settings w)))])"
proof -
  obtain r1 w1 where u: "update_agent_heartbeat L (AgentType_value (self_agent_id self)) w = (r1, w1)"
    by (cases "update_agent_heartbeat L (AgentType_value (self_agent_id self)) w")
  note f = update_agent_heartbeat_frame [OF u]
  have s: "set (tl (interrupts w1)) \<subseteq> set (interrupts w)"
    using f tl_subset [of "interrupts w1"] by blast
  have i: "interrupted w1 \<Longrightarrow> True \<in> set (interrupts w)"
    using interrupted_mem [of w1] f by blast
  have k: "r1 = Inl CancelledError \<Longrightarrow> True \<in> set (interrupts w)"
    using f by blast
  show ?thesis
  proof (cases r1)
    case (Inr x)
    with assms [unfolded heartbeat_iteration_eq [OF u]] f s i show ?thesis
      by (auto simp: did_def split: if_splits)
  next
    case (Inl e)
    show ?thesis
    proof (cases e)
      case CancelledError
      with Inl assms [unfolded heartbeat_iteration_eq [OF u]] f k show ?thesis by auto
    next
      case (Exception m)
      with Inl assms [unfolded heartbeat_iteration_eq [OF u]] f s i show ?thesis
        by (auto simp: did_def split: if_splits)
    qed
  qed
qed

lemma heartbeat_loop_stopped:
  "\<not> is_running self \<Longrightarrow> heartbeat_loop L cs self w = (Some (Inr ()), self, w)"
  by (cases cs) simp_all

lemma heartbeat_loop_exit:
  "heartbeat_loop L cs self w = (Some res, self', w') \<Longrightarrow>
     (res = Inr () \<or> res = Inl CancelledError)
     \<and> (\<not> is_running self \<or> True \<in> set (interrupts w) \<or> True \<in> set cs)"
proof (induction cs arbitrary: self w)
  case Nil
  then show ?case by (auto split: if_splits)
next
  case (Cons c cs)
  show ?case
  proof (cases "is_running self")
    case False
    with Cons.prems show ?thesis by auto
  next
    case True
    obtain st w1 where i: "heartbeat_iteration L self w = (st, w1)"
      by (cases "heartbeat_iteration L self w")
    note k = heartbeat_iteration_cases [OF i]
    show ?thesis
    proof (cases st)
      case Continue
      let ?s = "if c then self\<lparr>is_running := False\<rparr> else self"
      from Cons.prems True i Continue
      have l: "heartbeat_loop L cs ?s w1 = (Some res, self', w')" by (simp add: Let_def)
      from Cons.IH [OF l] k show ?thesis by (cases c) auto
    next
      case Break
      with Cons.prems True i k show ?thesis by (auto simp: Let_def)
    next
      case (Propagate e)
      with Cons.prems True i k show ?thesis by (auto simp: Let_def)
    qed
  qed
qed

lemma heartbeat_loop_runs:
  "is_running self \<Longrightarrow> True \<notin> set (interrupts w) \<Longrightarrow> True \<notin> set cs \<Longrightarrow>
     \<exists>w'. heartbeat_loop L cs self w = (None, self, w')
        \<and> trace w' = trace w @
             concat (replicate (length cs)
               [Call_update_agent_heartbeat (AgentType_value (self_agent_id self)),
                Sleep (real_of_int (heartbeat_interval_seconds (settings w)))])"
proof (induction cs arbitrary: w)
  case Nil
  then show ?case by simp
next
  case (Cons c cs)
  obtain st w1 where i: "heartbeat_iteration L self w = (st, w1)"
    by (cases "heartbeat_iteration L self w")
  note k = heartbeat_iteration_cases [OF i]
  from k Cons.prems(2) have st: "st = Continue" by blast
  from k Cons.prems(2) have q: "True \<notin> set (interrupts w1)" by blast
  from Cons.prems(3) have c: "\<not> c" and cs: "True \<notin> set cs" by auto
  from Cons.IH [OF Cons.prems(1) q cs] obtain w' where
    l: "heartbeat_loop L cs self w1 = (None, self, w')"
       "trace w' = trace w1 @
             concat (replicate (length cs)
               [Call_update_agent_heartbeat (AgentType_value (self_agent_id self)),
                Sleep (real_of_int (heartbeat_interval_seconds (settings w1)))])"
    by blast
  from k st have t: "trace w1 = trace w @ [Call_update_agent_heartbeat (AgentType_value (self_agent_id self)),
                                   Sleep (real_of_int (heartbeat_interval_seconds (settings w)))]"
    and se: "settings w1 = settings w" by simp_all
  from Cons.prems(1) i st c l t se show ?case by (simp add: Let_def)
qed


text \<open>
  C7. The loop of \<open>_heartbeat_loop\<close>, pass by pass. With the running flag cleared it
  returns at once and does nothing. With the flag set it makes a pass: when the
  heartbeat write raises an \<open>Exception\<close>, the pass logs it, sleeps the configured
  interval and the loop goes on with the next pass, and when the write succeeds, the
  pass sleeps the same interval and the loop goes on; a cancellation during either
  sleep ends the loop there (after a failed write the \<open>CancelledError\<close> leaves the
  coroutine, after a good one the loop breaks), and a cancellation during the write
  ends the loop with the call of the write as its last action. So nothing is done
  after a cancellation, in particular no further heartbeat write. A loop that has
  ended returned or let a \<open>CancelledError\<close> through, never an \<open>Exception\<close>, and either
  the flag was clear at the start, or it was cleared during a pass, or a cancellation
  was scheduled. With the flag set and never cleared and no cancellation, the loop is
  still running after any number of passes, each of which called the write and slept
  the interval, whatever the connection did.
\<close>

theorem heartbeat_loop_continues_until_cancelled:
  "(\<not> is_running self \<longrightarrow> heartbeat_loop L cs self w = (Some (Inr ()), self, w))
   \<and> (\<forall>m w1. is_running self
          \<and> update_agent_heartbeat L (AgentType_value (self_agent_id self)) w = (Inl (Exception m), w1) \<longrightarrow>
        heartbeat_loop L (c # cs) self w =
          (let w2 = did (Sleep (real_of_int (heartbeat_interval_seconds (settings w))))
                      ((agent_logger self LOG_ERROR (''Heartbeat error: '' @ m) w1)
                       \<lparr>interrupts := tl (interrupts w1)\<rparr>);
               self' = (if c then self\<lparr>is_running := False\<rparr> else self)
           in if interrupted w1 then (Some (Inl CancelledError), self', w2)
              else heartbeat_loop L cs self' w2))
   \<and> (\<forall>w1. is_running self
          \<and> update_agent_heartbeat L (AgentType_value (self_agent_id self)) w = (Inr (), w1) \<longrightarrow>
        heartbeat_loop L (c # cs) self w =
          (let w2 = did (Sleep (real_of_int (heartbeat_interval_seconds (settings w))))
                      (w1\<lparr>interrupts := tl (interrupts w1)\<rparr>);
               self' = (if c then self\<lparr>is_running := False\<rparr> else self)
           in if interrupted w1 then (Some (Inr ()), self', w2)
              else heartbeat_loop L cs self' w2))
   \<and> (\<forall>w1. is_running self
          \<and> update_agent_heartbeat L (AgentType_value (self_agent_id self)) w = (Inl CancelledError, w1) \<longrightarrow>
        heartbeat_loop L (c # cs) self w
          = (Some (Inr ()), if c then self\<lparr>is_running := False\<rparr> else self, w1)
        \<and> trace w1 = trace w @ [Call_update_agent_heartbeat (AgentType_value (self_agent_id self))]
        \<and> log_records w1 = log_records w)
   \<and> (\<forall>res self' w'. heartbeat_loop L cs self w = (Some res, self', w') \<longrightarrow>
        (res = Inr () \<or> res = Inl CancelledError)
        \<and> (\<not> is_running self \<or> True \<in> set (interrupts w) \<or> True \<in> set cs))
   \<and> (is_running self \<and> True \<notin> set (interrupts w) \<and> True \<notin> set cs \<longrightarrow>
        (\<exists>w'. heartbeat_loop L cs self w = (None, self, w')
           \<and> trace w' = trace w @
                concat (replicate (length cs)
                  [Call_update_agent_heartbeat (AgentType_value (self_agent_id self)),
                   Sleep (real_of_int (heartbeat_interval_seconds (settings w)))])))"
proof (intro conjI allI impI)
  assume "\<not> is_running self"
  then show "heartbeat_loop L cs self w = (Some (Inr ()), self, w)"
    by (rule heartbeat_loop_stopped)
next
  fix m w1
  assume a: "is_running self
          \<and> update_agent_heartbeat L (AgentType_value (self_agent_id self)) w = (Inl (Exception m), w1)"
  then have u: "update_agent_heartbeat L (AgentType_value (self_agent_id self)) w = (Inl (Exception m), w1)"
    by simp
  from a show "heartbeat_loop L (c # cs) self w =
          (let w2 = did (Sleep (real_of_int (heartbeat_interval_seconds (settings w))))
                      ((agent_logger self LOG_ERROR (''Heartbeat error: '' @ m) w1)
                       \<lparr>interrupts := tl (interrupts w1)\<rparr>);
               self' = (if c then self\<lparr>is_running := False\<rparr> else self)
           in if interrupted w1 then (Some (Inl CancelledError), self', w2)
              else heartbeat_loop L cs self' w2)"
    by (simp add: heartbeat_iteration_eq [OF u] Let_def)
next
  fix w1
  assume a: "is_running self
          \<and> update_agent_heartbeat L (AgentType_value (self_agent_id self)) w = (Inr (), w1)"
  then have u: "update_agent_heartbeat L (AgentType_value (self_agent_id self)) w = (Inr (), w1)"
    by simp
  from a show "heartbeat_loop L (c # cs) self w =
          (let w2 = did (Sleep (real_of_int (heartbeat_interval_seconds (settings w))))
                      (w1\<lparr>interrupts := tl (interrupts w1)\<rparr>);
               self' = (if c then self\<lparr>is_running := False\<rparr> else self)
           in if interrupted w1 then (Some (Inr ()), self', w2)
              else heartbeat_loop L cs self' w2)"
    by (simp add: heartbeat_iteration_eq [OF u] Let_def)
next
  fix w1
  assume a: "is_running self
          \<and> update_agent_heartbeat L (AgentType_value (self_agent_id self)) w = (Inl CancelledError, w1)"
  then have u: "update_agent_heartbeat L (AgentType_value (self_agent_id self)) w = (Inl CancelledError, w1)"
    by simp
  from a show "heartbeat_loop L (c # cs) self w
          = (Some (Inr ()), if c then self\<lparr>is_running := False\<rparr> else self, w1)"
    by (simp add: heartbeat_iteration_eq [OF u] Let_def)
  from update_agent_heartbeat_frame [OF u]
  show "trace w1 = trace w @ [Call_update_agent_heartbeat (AgentType_value (self_agent_id self))]"
    and "log_records w1 = log_records w"
    by simp_all
next
  fix res self' w'
  assume h: "heartbeat_loop L cs self w = (Some res, self', w')"
  from heartbeat_loop_exit [OF h] show "res = Inr () \<or> res = Inl CancelledError"
    and "\<not> is_running self \<or> True \<in> set (interrupts w) \<or> True \<in> set cs"
    by simp_all
next
  assume "is_running self \<and> True \<notin> set (interrupts w) \<and> True \<notin> set cs"
  then show "\<exists>w'. heartbeat_loop L cs self w = (None, self, w')
           \<and> trace w' = trace w @
                concat (replicate (length cs)
                  [Call_update_agent_heartbeat (AgentType_value (self_agent_id self)),
                   Sleep (real_of_int (heartbeat_interval_seconds (settings w)))])"
    using heartbeat_loop_runs [of self w cs L] by blast
qed


theorem heartbeat_loop_continues_until_cancelled_witness:
  "heartbeat_loop example_lib [False, False] (BaseAgent_init DATA_QUALITY)
       (example_world None rising_clock [])
     = (Some (Inr ()), BaseAgent_init DATA_QUALITY, example_world None rising_clock [])
   \<and> (\<exists>w'. heartbeat_loop example_lib [False, False] example_running_agent
                (example_world None rising_clock [])
              = (None, example_running_agent, w')
         \<and> trace w' = [Call_update_agent_heartbeat ''data_quality'', Sleep 60,
                        Call_update_agent_heartbeat ''data_quality'', Sleep 60])
   \<and> (\<exists>w'. heartbeat_loop example_lib [False] example_running_agent
                (example_world None rising_clock [True])
              = (Some (Inl CancelledError), example_running_agent, w')
         \<and> trace w' = [Call_update_agent_heartbeat ''data_quality'', Sleep 60]
         \<and> log_records w' =
              [(''data_quality'', LOG_ERROR, ''Heartbeat error: NoneType object has no attribute hset'')])
   \<and> (\<exists>w'. heartbeat_loop example_lib [False] example_running_agent
                (example_world (Some (example_redis [] [])) rising_clock [False, False, True])
              = (Some (Inr ()), example_running_agent, w')
         \<and> trace w' = [Call_update_agent_heartbeat ''data_quality'', Sleep 60]
         \<and> map_option (\<lambda>r. stored r ''agent_heartbeats'' ''data_quality'') (redis_client w')
              = Some (Some ''2024-01-01T00:00:00''))
   \<and> (\<exists>w'. heartbeat_loop example_lib [True] example_running_agent
                (example_world (Some (example_redis [] [])) rising_clock [True])
              = (Some (Inr ()), example_running_agent\<lparr>is_running := False\<rparr>, w')
         \<and> trace w' = [Call_update_agent_heartbeat ''data_quality''])
   \<and> True \<in> set (interrupts (example_world (Some (example_redis [] [])) rising_clock
                                 [False, False, True]))"
proof -
  let ?s = example_running_agent
  let ?n = "BaseAgent_init DATA_QUALITY"
  let ?wu = "example_world None rising_clock []"
  let ?wb = "example_world None rising_clock [True]"
  let ?ws = "example_world (Some (example_redis [] [])) rising_clock [False, False, True]"
  let ?wc = "example_world (Some (example_redis [] [])) rising_clock [True]"
  let ?id = "AgentType_value (self_agent_id ?s)"
  let ?ub = "snd (update_agent_heartbeat example_lib ?id ?wb)"
  let ?us = "snd (update_agent_heartbeat example_lib ?id ?ws)"
  let ?uc = "snd (update_agent_heartbeat example_lib ?id ?wc)"
  have e: "?id = ''data_quality''" "is_running ?s" "\<not> is_running ?n"
    "real_of_int (heartbeat_interval_seconds (settings ?wu)) = 60"
    "real_of_int (heartbeat_interval_seconds (settings ?wb)) = 60"
    "real_of_int (heartbeat_interval_seconds (settings ?ws)) = 60"
    "trace ?wu = []" "True \<notin> set (interrupts ?wu)"
    by (simp_all add: example_running_agent_def example_defs)
  have b: "update_agent_heartbeat example_lib ?id ?wb
             = (Inl (Exception ''NoneType object has no attribute hset''), ?ub)"
    "interrupted ?ub" "trace ?ub = [Call_update_agent_heartbeat ''data_quality'']"
    "log_records ?ub = []"
    by (simp_all add: update_agent_heartbeat_def did_def Let_def interrupted_def
          example_running_agent_def example_defs)
  have s: "update_agent_heartbeat example_lib ?id ?ws = (Inr (), ?us)"
    "interrupted ?us" "trace ?us = [Call_update_agent_heartbeat ''data_quality'']"
    "map_option (\<lambda>r. stored r ''agent_heartbeats'' ''data_quality'') (redis_client ?us)
       = Some (Some ''2024-01-01T00:00:00'')"
    by (simp_all add: update_agent_heartbeat_def cancel_point_def with_client_def redis_hset_def
          next_fault_def now_def did_def Let_def interrupted_def stored_def
          example_running_agent_def example_defs)
  have c: "update_agent_heartbeat example_lib ?id ?wc = (Inl CancelledError, ?uc)"
    by (simp add: update_agent_heartbeat_def cancel_point_def now_def did_def Let_def
          example_running_agent_def example_defs)
  from heartbeat_loop_continues_until_cancelled
         [where self = ?n and L = example_lib and cs = "[False, False]" and w = ?wu] e(3)
  have 1: "heartbeat_loop example_lib [False, False] ?n ?wu = (Some (Inr ()), ?n, ?wu)"
    by blast
  from heartbeat_loop_continues_until_cancelled
         [where self = ?s and L = example_lib and cs = "[False, False]" and w = ?wu] e(2,8)
  have 2: "\<exists>w'. heartbeat_loop example_lib [False, False] ?s ?wu = (None, ?s, w')
           \<and> trace w' = trace ?wu @
                concat (replicate (length [False, False])
                  [Call_update_agent_heartbeat ?id,
                   Sleep (real_of_int (heartbeat_interval_seconds (settings ?wu)))])"
    by simp
  from heartbeat_loop_continues_until_cancelled
         [where self = ?s and L = example_lib and cs = "[]" and w = ?wb and c = False] e(2) b(1)
  have 3: "heartbeat_loop example_lib [False] ?s ?wb =
          (let w2 = did (Sleep (real_of_int (heartbeat_interval_seconds (settings ?wb))))
                      ((agent_logger ?s LOG_ERROR
                          (''Heartbeat error: '' @ ''NoneType object has no attribute hset'') ?ub)
                       \<lparr>interrupts := tl (interrupts ?ub)\<rparr>);
               self' = (if False then ?s\<lparr>is_running := False\<rparr> else ?s)
           in if interrupted ?ub then (Some (Inl CancelledError), self', w2)
              else heartbeat_loop example_lib [] self' w2)"
    by blast
  from heartbeat_loop_continues_until_cancelled
         [where self = ?s and L = example_lib and cs = "[]" and w = ?ws and c = False] e(2) s(1)
  have 4: "heartbeat_loop example_lib [False] ?s ?ws =
          (let w2 = did (Sleep (real_of_int (heartbeat_interval_seconds (settings ?ws))))
                      (?us\<lparr>interrupts := tl (interrupts ?us)\<rparr>);
               self' = (if False then ?s\<lparr>is_running := False\<rparr> else ?s)
           in if interrupted ?us then (Some (Inr ()), self', w2)
              else heartbeat_loop example_lib [] self' w2)"
    by blast
  from heartbeat_loop_continues_until_cancelled
         [where self = ?s and L = example_lib and cs = "[]" and w = ?wc and c = True] e(2) c
  have 5: "heartbeat_loop example_lib [True] ?s ?wc
          = (Some (Inr ()), if True then ?s\<lparr>is_running := False\<rparr> else ?s, ?uc)
        \<and> trace ?uc = trace ?wc @ [Call_update_agent_heartbeat ?id]"
    by blast
  from 4 s(2) e(6)
  have 6: "heartbeat_loop example_lib [False] ?s ?ws
             = (Some (Inr ()), ?s, did (Sleep 60) (?us\<lparr>interrupts := tl (interrupts ?us)\<rparr>))"
    by (simp add: Let_def)
  from heartbeat_loop_continues_until_cancelled
         [where self = ?s and L = example_lib and cs = "[False]" and w = ?ws] 6 e(2)
  have 7: "True \<in> set (interrupts ?ws)"
    by auto
  have 8: "trace ?wc = []" by (simp add: example_defs)
  from 3 b(2) e(5)
  have 9: "heartbeat_loop example_lib [False] ?s ?wb
             = (Some (Inl CancelledError), ?s,
                did (Sleep 60)
                  ((agent_logger ?s LOG_ERROR
                      (''Heartbeat error: '' @ ''NoneType object has no attribute hset'') ?ub)
                   \<lparr>interrupts := tl (interrupts ?ub)\<rparr>))"
    by (simp add: Let_def)
  show ?thesis
  proof (intro conjI)
    show "heartbeat_loop example_lib [False, False] ?n ?wu = (Some (Inr ()), ?n, ?wu)"
      by (rule 1)
    show "\<exists>w'. heartbeat_loop example_lib [False, False] ?s ?wu = (None, ?s, w')
         \<and> trace w' = [Call_update_agent_heartbeat ''data_quality'', Sleep 60,
                        Call_update_agent_heartbeat ''data_quality'', Sleep 60]"
      using 2 by (simp add: e(1,4,7) numeral_2_eq_2)
    show "\<exists>w'. heartbeat_loop example_lib [False] ?s ?wb = (Some (Inl CancelledError), ?s, w')
         \<and> trace w' = [Call_update_agent_heartbeat ''data_quality'', Sleep 60]
         \<and> log_records w' =
              [(''data_quality'', LOG_ERROR, ''Heartbeat error: NoneType object has no attribute hset'')]"
      unfolding 9 by (simp add: did_def agent_logger_def logger_def b(3,4) [unfolded e(1)] e(1))
    show "\<exists>w'. heartbeat_loop example_lib [False] ?s ?ws = (Some (Inr ()), ?s, w')
         \<and> trace w' = [Call_update_agent_heartbeat ''data_quality'', Sleep 60]
         \<and> map_option (\<lambda>r. stored r ''agent_heartbeats'' ''data_quality'') (redis_client w')
              = Some (Some ''2024-01-01T00:00:00'')"
      unfolding 6 using s(4) by (simp add: did_def s(3) [unfolded e(1)] e(1))
    show "\<exists>w'. heartbeat_loop example_lib [True] ?s ?wc
              = (Some (Inr ()), ?s\<lparr>is_running := False\<rparr>, w')
         \<and> trace w' = [Call_update_agent_heartbeat ''data_quality'']"
      using 5 by (simp add: 8 e(1))
    show "True \<in> set (interrupts ?ws)" by (rule 7)
  qed
qed

end
